theory Spec2Isabelle
  imports Complex_Main "HOL-Library.Word"
begin

section \<open>NeonFlow: the canvas render loop of \<open>VisualizerCanvas\<close>\<close>

text \<open>
  The development embeds the state-changing and geometry-computing parts of the React
  component \<open>VisualizerCanvas\<close>: its particle initialisers, its two initialisation
  effects and the per-frame \<open>render\<close> callback.

  JavaScript numbers are modelled as exact reals.  The places where a JavaScript double
  leaves the reals are written out: a division whose divisor can be zero returns a
  \<open>jsnum\<close>, a read past the end of a typed array returns \<open>None\<close> (JavaScript's
  \<open>undefined\<close>, which arithmetic turns into NaN), and the remainder operator \<open>%\<close>
  keeps the sign of its left operand.  Rounding errors of double arithmetic are not
  modelled.
\<close>

subsection \<open>JavaScript numerics\<close>

type_synonym byte = "8 word"

text \<open>An element of a \<open>Uint8Array\<close> read as a number.\<close>

definition byte_val :: "byte \<Rightarrow> real" where
  "byte_val b = real (unat b)"

datatype jsnum = Num real | NaN | PosInf | NegInf

text \<open>\<open>x / y\<close> on doubles: a zero divisor yields NaN or an infinity instead of raising.\<close>

definition js_div :: "real \<Rightarrow> real \<Rightarrow> jsnum" where
  "js_div x y =
     (if y \<noteq> 0 then Num (x / y)
      else if x = 0 then NaN
      else if 0 < x then PosInf else NegInf)"

text \<open>Division of a possibly non-finite value by a positive constant.\<close>

definition jsnum_div_const :: "jsnum \<Rightarrow> real \<Rightarrow> jsnum" where
  "jsnum_div_const v c = (case v of Num x \<Rightarrow> Num (x / c) | NaN \<Rightarrow> NaN
                           | PosInf \<Rightarrow> PosInf | NegInf \<Rightarrow> NegInf)"

text \<open>Rounding towards zero, as the remainder operator of JavaScript does.\<close>

definition js_trunc :: "real \<Rightarrow> int" where
  "js_trunc x = (if 0 \<le> x then \<lfloor>x\<rfloor> else \<lceil>x\<rceil>)"

text \<open>
  \<open>x % m\<close> for a non-zero \<open>m\<close>: the remainder of the division truncated towards zero,
  so the result has the sign of \<open>x\<close>.
\<close>

definition js_rem :: "real \<Rightarrow> real \<Rightarrow> real" where
  "js_rem x m = x - m * of_int (js_trunc (x / m))"

text \<open>
  \<open>dataArray[i]\<close> on a \<open>Uint8Array\<close>: the byte as a number, or \<open>undefined\<close>
  (\<open>None\<close>) past the end.
\<close>

definition js_index :: "byte list \<Rightarrow> nat \<Rightarrow> real option" where
  "js_index dataArray i =
     (if i < length dataArray then Some (byte_val (dataArray ! i)) else None)"

subsection \<open>Audio metrics (\<open>render\<close>, lines 250--269)\<close>

record band_totals =
  bassTotal :: real
  lowMidTotal :: real
  highTotal :: real

text \<open>The body of the loop over \<open>i < bufferLength\<close>.\<close>

definition band_step :: "byte list \<Rightarrow> band_totals \<Rightarrow> nat \<Rightarrow> band_totals" where
  "band_step dataArray acc i =
     (let val = byte_val (dataArray ! i) in
      if i < 5 then acc\<lparr>bassTotal := bassTotal acc + val\<rparr>
      else if i < 20 then acc\<lparr>bassTotal := bassTotal acc + val * 0.8\<rparr>
      else if i < 100 then acc\<lparr>lowMidTotal := lowMidTotal acc + val\<rparr>
      else acc\<lparr>highTotal := highTotal acc + val\<rparr>)"

text \<open>\<open>bufferLength\<close> is the length of \<open>dataArray\<close> (line 221).\<close>

definition band_loop :: "byte list \<Rightarrow> band_totals" where
  "band_loop dataArray =
     foldl (band_step dataArray)
       \<lparr>bassTotal = 0, lowMidTotal = 0, highTotal = 0\<rparr> [0..<length dataArray]"

definition bassAvg :: "byte list \<Rightarrow> real" where
  "bassAvg dataArray = bassTotal (band_loop dataArray) / 20"

definition lowMidAvg :: "byte list \<Rightarrow> real" where
  "lowMidAvg dataArray = lowMidTotal (band_loop dataArray) / 80"

definition highAvg :: "byte list \<Rightarrow> jsnum" where
  "highAvg dataArray =
     js_div (highTotal (band_loop dataArray)) (real_of_int (int (length dataArray) - 100))"

definition bassLevel :: "byte list \<Rightarrow> real" where
  "bassLevel dataArray = (bassAvg dataArray / 255)\<^sup>2 * 2"

definition midLevel :: "byte list \<Rightarrow> real" where
  "midLevel dataArray = lowMidAvg dataArray / 255"

definition highLevel :: "byte list \<Rightarrow> jsnum" where
  "highLevel dataArray = jsnum_div_const (highAvg dataArray) 255"

text \<open>A level is well defined when it is a finite, non-negative number.\<close>

definition finite_nonneg :: "jsnum \<Rightarrow> bool" where
  "finite_nonneg v = (case v of Num x \<Rightarrow> 0 \<le> x | _ \<Rightarrow> False)"

text \<open>The weight with which bin \<open>i\<close> enters \<open>bassTotal\<close>.\<close>

definition bass_weight :: "nat \<Rightarrow> real" where
  "bass_weight i = (if i < 5 then 1 else if i < 20 then 0.8 else 0)"

subsection \<open>Colour (\<open>render\<close>, lines 243--247 and the hue of each mode)\<close>

text \<open>
  \<open>time\<close> is the elapsed time in seconds, \<open>(Date.now() - startTime) * 0.001\<close>, and
  \<open>g\<close> is \<open>globalHueShift\<close>.
\<close>

definition hueWobble :: "real \<Rightarrow> real" where
  "hueWobble time = sin (time * 0.5) * 54"

definition dynamicHue :: "real \<Rightarrow> real \<Rightarrow> real" where
  "dynamicHue g time = js_rem (g + hueWobble time) 360"

definition neural_baseHue :: "real \<Rightarrow> real \<Rightarrow> real" where
  "neural_baseHue g time = js_rem (220 + g + hueWobble time) 360"

definition watercolor_h :: "real \<Rightarrow> real \<Rightarrow> real \<Rightarrow> real" where
  "watercolor_h colorH g time = js_rem (colorH + g + hueWobble time) 360"

definition poolHue :: "byte list \<Rightarrow> real \<Rightarrow> real \<Rightarrow> real" where
  "poolHue dataArray g time =
     js_rem (200 + g + hueWobble time - bassLevel dataArray * 30) 360"

definition ink_barHue :: "nat \<Rightarrow> real \<Rightarrow> real \<Rightarrow> real" where
  "ink_barHue i g time = js_rem (180 + (real i / 120) * 60 + g + hueWobble time) 360"

definition hPurple :: "real \<Rightarrow> real \<Rightarrow> real" where
  "hPurple g time = js_rem (270 + g + hueWobble time) 360"

definition hPink :: "real \<Rightarrow> real \<Rightarrow> real" where
  "hPink g time = js_rem (320 + g + hueWobble time) 360"

definition hBlue :: "real \<Rightarrow> real \<Rightarrow> real" where
  "hBlue g time = js_rem (230 + g + hueWobble time) 360"

definition circular_barHue :: "nat \<Rightarrow> real \<Rightarrow> real \<Rightarrow> real" where
  "circular_barHue i g time = js_rem (dynamicHue g time + (real i / 120) * 60) 360"

text \<open>The hue of bar \<open>i\<close> in Bars mode; the loop body runs only for \<open>i < bufferLength\<close>.\<close>

definition bars_barHue :: "nat \<Rightarrow> nat \<Rightarrow> real \<Rightarrow> real \<Rightarrow> real" where
  "bars_barHue bufferLength i g time =
     js_rem (dynamicHue g time + (real i / real bufferLength) * 60) 360"

subsection \<open>Particles and their initialisers (lines 12--52 and 98--204)\<close>

datatype VisualizerMode = CIRCULAR | BARS | WAVE | NEURAL | WATERCOLOR | NEBULA | WATER_CIRCLE

record NeuralNode =
  node_x :: real
  node_y :: real
  node_vx :: real
  node_vy :: real
  node_radius :: real
  originalX :: real
  originalY :: real

record WatercolorBlob =
  blob_x :: real
  blob_y :: real
  blob_radius :: real
  colorH :: real
  blob_vx :: real
  blob_vy :: real
  phase :: real

record NebulaStar =
  star_x :: real
  star_y :: real
  star_size :: real
  baseAlpha :: real
  twinklePhase :: real

record PaperShard =
  shard_x :: real
  shard_y :: real
  shard_vx :: real
  shard_vy :: real
  p1dx :: real
  p1dy :: real
  p2dx :: real
  p2dy :: real
  shard_size :: real
  isLight :: bool
  opacity :: real
  isHighlight :: bool

text \<open>
  The browser as the component sees it: \<open>Math.random()\<close> is a stream of numbers, read
  at a cursor that every call advances; \<open>window.innerWidth\<close> and
  \<open>window.innerHeight\<close>; and whether the off-screen noise canvas yields a 2d context.
\<close>

record browser =
  mathRandom :: "nat \<Rightarrow> real"
  innerWidth :: nat
  innerHeight :: nat
  noiseCtx :: bool

text \<open>Node \<open>i\<close> draws, in this order: x, y, vx, vy, radius.\<close>

definition mkNeuralNode :: "browser \<Rightarrow> nat \<Rightarrow> NeuralNode" where
  "mkNeuralNode env k =
     (let x = mathRandom env k * real (innerWidth env);
          y = mathRandom env (k + 1) * real (innerHeight env)
      in \<lparr>node_x = x, node_y = y,
          node_vx = (mathRandom env (k + 2) - 0.5) * 0.5,
          node_vy = (mathRandom env (k + 3) - 0.5) * 0.5,
          node_radius = mathRandom env (k + 4) * 2.0 + 1.0,
          originalX = x, originalY = y\<rparr>)"

definition initNeuralNodes :: "browser \<Rightarrow> nat \<Rightarrow> NeuralNode list \<times> nat" where
  "initNeuralNodes env k = (map (\<lambda>i. mkNeuralNode env (k + 5 * i)) [0..<50], k + 5 * 50)"

text \<open>Blob \<open>i\<close> draws, in this order: x, y, radius, colorH, vx, vy, phase.\<close>

definition mkWatercolorBlob :: "browser \<Rightarrow> nat \<Rightarrow> WatercolorBlob" where
  "mkWatercolorBlob env k =
     \<lparr>blob_x = mathRandom env k * real (innerWidth env),
      blob_y = mathRandom env (k + 1) * real (innerHeight env),
      blob_radius = 180 + mathRandom env (k + 2) * 200,
      colorH = 200 + mathRandom env (k + 3) * 60,
      blob_vx = (mathRandom env (k + 4) - 0.5) * 0.5,
      blob_vy = (mathRandom env (k + 5) - 0.5) * 0.5,
      phase = mathRandom env (k + 6) * pi * 2\<rparr>"

definition initWatercolorBlobs :: "browser \<Rightarrow> nat \<Rightarrow> WatercolorBlob list \<times> nat" where
  "initWatercolorBlobs env k =
     (map (\<lambda>i. mkWatercolorBlob env (k + 7 * i)) [0..<7], k + 7 * 7)"

text \<open>Star \<open>i\<close> draws, in this order: x, y, size, baseAlpha, twinklePhase.\<close>

definition mkNebulaStar :: "browser \<Rightarrow> nat \<Rightarrow> NebulaStar" where
  "mkNebulaStar env k =
     \<lparr>star_x = mathRandom env k * real (innerWidth env),
      star_y = mathRandom env (k + 1) * real (innerHeight env),
      star_size = mathRandom env (k + 2) * 3.0 + 1.0,
      baseAlpha = mathRandom env (k + 3) * 0.8 + 0.1,
      twinklePhase = mathRandom env (k + 4) * pi * 2\<rparr>"

definition initNebulaStars :: "browser \<Rightarrow> nat \<Rightarrow> NebulaStar list \<times> nat" where
  "initNebulaStars env k = (map (\<lambda>i. mkNebulaStar env (k + 5 * i)) [0..<150], k + 5 * 150)"

text \<open>
  Shard \<open>i\<close> draws, in this order: size, p1dx, p1dy, p2dx, p2dy, isLight, x, y, vx, vy,
  opacity, isHighlight.
\<close>

definition mkPaperShard :: "browser \<Rightarrow> nat \<Rightarrow> PaperShard" where
  "mkPaperShard env k =
     (let size = mathRandom env k * 300 + 100;
          light = (mathRandom env (k + 5) > 0.5)
      in \<lparr>shard_x = mathRandom env (k + 6) * real (innerWidth env),
          shard_y = mathRandom env (k + 7) * real (innerHeight env),
          shard_vx = (mathRandom env (k + 8) - 0.5) * 0.2,
          shard_vy = (mathRandom env (k + 9) - 0.5) * 0.2,
          p1dx = (mathRandom env (k + 1) - 0.5) * size,
          p1dy = (mathRandom env (k + 2) - 0.5) * size,
          p2dx = (mathRandom env (k + 3) - 0.5) * size,
          p2dy = (mathRandom env (k + 4) - 0.5) * size,
          shard_size = size,
          isLight = light,
          opacity = (if light then mathRandom env (k + 10) * 0.1
                     else mathRandom env (k + 10) * 0.05),
          isHighlight = (mathRandom env (k + 11) > 0.95)\<rparr>)"

text \<open>
  \<open>initPaperShards\<close> first fills the noise raster (two draws for each of the
  \<open>w * h\<close> pixels, when the 2d context exists; the raster is kept as its dimensions) and
  then creates 150 shards.  The result is the raster, the shards and the new cursor.
  (A window of width or height zero, for which the browser refuses to create the raster,
  is outside the model.)
\<close>

definition initPaperShards ::
  "browser \<Rightarrow> (nat \<times> nat) option \<Rightarrow> nat \<Rightarrow> (nat \<times> nat) option \<times> PaperShard list \<times> nat" where
  "initPaperShards env noise k =
     (let w = innerWidth env; h = innerHeight env;
          k1 = (if noiseCtx env then k + 2 * (w * h) else k);
          noise1 = (if noiseCtx env then Some (w, h) else noise)
      in (noise1, map (\<lambda>i. mkPaperShard env (k1 + 12 * i)) [0..<150], k1 + 12 * 150))"

subsection \<open>The component state and its effects (lines 61--91 and 206--218)\<close>

record vis_state =
  neuralNodesRef :: "NeuralNode list"
  watercolorBlobsRef :: "WatercolorBlob list"
  nebulaStarsRef :: "NebulaStar list"
  paperShardsRef :: "PaperShard list"
  noiseCanvasRef :: "(nat \<times> nat) option"
  modeRef :: VisualizerMode
  colorShiftRef :: real
  rotationRef :: real
  canvasWidth :: nat
  canvasHeight :: nat
  rndCursor :: nat

definition do_initNeuralNodes :: "browser \<Rightarrow> vis_state \<Rightarrow> vis_state" where
  "do_initNeuralNodes env st =
     (case initNeuralNodes env (rndCursor st) of
        (nodes, k) \<Rightarrow> st\<lparr>neuralNodesRef := nodes, rndCursor := k\<rparr>)"

definition do_initWatercolorBlobs :: "browser \<Rightarrow> vis_state \<Rightarrow> vis_state" where
  "do_initWatercolorBlobs env st =
     (case initWatercolorBlobs env (rndCursor st) of
        (blobs, k) \<Rightarrow> st\<lparr>watercolorBlobsRef := blobs, rndCursor := k\<rparr>)"

definition do_initNebulaStars :: "browser \<Rightarrow> vis_state \<Rightarrow> vis_state" where
  "do_initNebulaStars env st =
     (case initNebulaStars env (rndCursor st) of
        (stars, k) \<Rightarrow> st\<lparr>nebulaStarsRef := stars, rndCursor := k\<rparr>)"

definition do_initPaperShards :: "browser \<Rightarrow> vis_state \<Rightarrow> vis_state" where
  "do_initPaperShards env st =
     (case initPaperShards env (noiseCanvasRef st) (rndCursor st) of
        (noise, shards, k) \<Rightarrow>
          st\<lparr>noiseCanvasRef := noise, paperShardsRef := shards, rndCursor := k\<rparr>)"

text \<open>The effect with dependency \<open>[mode]\<close> (lines 74--91).\<close>

definition mode_effect :: "browser \<Rightarrow> VisualizerMode \<Rightarrow> vis_state \<Rightarrow> vis_state" where
  "mode_effect env mode st =
     (let st0 = st\<lparr>modeRef := mode\<rparr>;
          st1 =
            (if mode = NEURAL \<and> length (neuralNodesRef st0) = 0
               then do_initNeuralNodes env st0
             else if mode = WATERCOLOR \<and> length (watercolorBlobsRef st0) = 0
               then do_initWatercolorBlobs env st0
             else if mode = NEBULA \<and> length (nebulaStarsRef st0) = 0
               then do_initNebulaStars env st0
             else if mode = WATER_CIRCLE \<and> length (paperShardsRef st0) = 0
               then do_initPaperShards env st0
             else st0)
      in if mode = NEURAL \<and> length (paperShardsRef st1) = 0
           then do_initPaperShards env st1 else st1)"

text \<open>
  The initialisation at the head of the effect with dependencies
  \<open>[analyser, streamInitialized]\<close> (lines 213--218), for a canvas, analyser and drawing
  context that exist.  \<open>mode\<close> is the prop of the render that scheduled the effect.
\<close>

definition setup_effect :: "browser \<Rightarrow> VisualizerMode \<Rightarrow> vis_state \<Rightarrow> vis_state" where
  "setup_effect env mode st =
     (let st1 = (if mode = NEURAL then do_initNeuralNodes env st else st);
          st2 = (if mode = WATERCOLOR then do_initWatercolorBlobs env st1 else st1);
          st3 = (if mode = NEBULA then do_initNebulaStars env st2 else st2)
      in if (mode = WATER_CIRCLE \<or> mode = NEURAL) \<and> length (paperShardsRef st3) = 0
           then do_initPaperShards env st3 else st3)"

text \<open>The component before its first effect has run: every ref holds its initial value.\<close>

definition initial_state :: "VisualizerMode \<Rightarrow> real \<Rightarrow> nat \<Rightarrow> nat \<Rightarrow> vis_state" where
  "initial_state mode colorShift cw ch =
     \<lparr>neuralNodesRef = [], watercolorBlobsRef = [], nebulaStarsRef = [],
      paperShardsRef = [], noiseCanvasRef = None, modeRef = mode,
      colorShiftRef = colorShift, rotationRef = 0,
      canvasWidth = cw, canvasHeight = ch, rndCursor = 0\<rparr>"

subsection \<open>Advancing the particle fields (inside \<open>render\<close>)\<close>

text \<open>Lines 290--297 and 425--432: a shard moves and wraps with a margin of 150.\<close>

definition advance_shard :: "real \<Rightarrow> real \<Rightarrow> PaperShard \<Rightarrow> PaperShard" where
  "advance_shard WIDTH HEIGHT shard =
     (let x1 = shard_x shard + shard_vx shard;
          y1 = shard_y shard + shard_vy shard;
          x2 = (if x1 < - 150 then WIDTH + 150 else x1);
          x3 = (if x2 > WIDTH + 150 then - 150 else x2);
          y2 = (if y1 < - 150 then HEIGHT + 150 else y1);
          y3 = (if y2 > HEIGHT + 150 then - 150 else y2)
      in shard\<lparr>shard_x := x3, shard_y := y3\<rparr>)"

text \<open>Lines 329--336: a node moves, faster with bass, and wraps at the surface edge.\<close>

definition advance_node :: "real \<Rightarrow> real \<Rightarrow> real \<Rightarrow> NeuralNode \<Rightarrow> NeuralNode" where
  "advance_node WIDTH HEIGHT bass node =
     (let x1 = node_x node + node_vx node * (1 + bass * 0.5);
          y1 = node_y node + node_vy node * (1 + bass * 0.5);
          x2 = (if x1 < 0 then WIDTH else x1);
          x3 = (if x2 > WIDTH then 0 else x2);
          y2 = (if y1 < 0 then HEIGHT else y1);
          y3 = (if y2 > HEIGHT then 0 else y2)
      in node\<lparr>node_x := x3, node_y := y3\<rparr>)"

text \<open>
  Lines 379--384: a blob moves, and a velocity component changes sign when the blob is
  beyond the surface extended by 100; the position itself is left as it is.
\<close>

definition advance_blob :: "real \<Rightarrow> real \<Rightarrow> real \<Rightarrow> WatercolorBlob \<Rightarrow> WatercolorBlob" where
  "advance_blob WIDTH HEIGHT bass blob =
     (let speedMult = 1 + bass * 5;
          x1 = blob_x blob + blob_vx blob * speedMult;
          y1 = blob_y blob + blob_vy blob * speedMult;
          vx1 = (if x1 < - 100 \<or> x1 > WIDTH + 100 then blob_vx blob * - 1 else blob_vx blob);
          vy1 = (if y1 < - 100 \<or> y1 > HEIGHT + 100 then blob_vy blob * - 1 else blob_vy blob)
      in blob\<lparr>blob_x := x1, blob_y := y1, blob_vx := vx1, blob_vy := vy1\<rparr>)"

definition advance_shards :: "real \<Rightarrow> real \<Rightarrow> PaperShard list \<Rightarrow> PaperShard list" where
  "advance_shards WIDTH HEIGHT shards = map (advance_shard WIDTH HEIGHT) shards"

definition advance_nodes :: "real \<Rightarrow> real \<Rightarrow> real \<Rightarrow> NeuralNode list \<Rightarrow> NeuralNode list" where
  "advance_nodes WIDTH HEIGHT bass nodes = map (advance_node WIDTH HEIGHT bass) nodes"

definition advance_blobs ::
  "real \<Rightarrow> real \<Rightarrow> real \<Rightarrow> WatercolorBlob list \<Rightarrow> WatercolorBlob list" where
  "advance_blobs WIDTH HEIGHT bass blobs = map (advance_blob WIDTH HEIGHT bass) blobs"

text \<open>A field after one tick for each bass level of the list, on a surface of fixed size.\<close>

definition run_shards :: "real \<Rightarrow> real \<Rightarrow> nat \<Rightarrow> PaperShard list \<Rightarrow> PaperShard list" where
  "run_shards WIDTH HEIGHT n shards = ((advance_shards WIDTH HEIGHT) ^^ n) shards"

definition run_nodes :: "real \<Rightarrow> real \<Rightarrow> real list \<Rightarrow> NeuralNode list \<Rightarrow> NeuralNode list" where
  "run_nodes WIDTH HEIGHT basses nodes =
     foldl (\<lambda>ns bass. advance_nodes WIDTH HEIGHT bass ns) nodes basses"

definition run_blobs ::
  "real \<Rightarrow> real \<Rightarrow> real list \<Rightarrow> WatercolorBlob list \<Rightarrow> WatercolorBlob list" where
  "run_blobs WIDTH HEIGHT basses blobs =
     foldl (\<lambda>bs bass. advance_blobs WIDTH HEIGHT bass bs) blobs basses"

definition shard_in_margin :: "real \<Rightarrow> real \<Rightarrow> PaperShard \<Rightarrow> bool" where
  "shard_in_margin WIDTH HEIGHT s =
     (- 150 \<le> shard_x s \<and> shard_x s \<le> WIDTH + 150 \<and>
      - 150 \<le> shard_y s \<and> shard_y s \<le> HEIGHT + 150)"

definition node_in_surface :: "real \<Rightarrow> real \<Rightarrow> NeuralNode \<Rightarrow> bool" where
  "node_in_surface WIDTH HEIGHT n =
     (0 \<le> node_x n \<and> node_x n \<le> WIDTH \<and> 0 \<le> node_y n \<and> node_y n \<le> HEIGHT)"

definition blob_in_extended :: "real \<Rightarrow> real \<Rightarrow> WatercolorBlob \<Rightarrow> bool" where
  "blob_in_extended WIDTH HEIGHT b =
     (- 100 \<le> blob_x b \<and> blob_x b \<le> WIDTH + 100 \<and>
      - 100 \<le> blob_y b \<and> blob_y b \<le> HEIGHT + 100)"

subsection \<open>The state change of one \<open>render\<close> call\<close>

text \<open>Lines 230--237: the canvas follows its client size; two modes rebuild the shards.\<close>

definition handle_resize :: "browser \<Rightarrow> nat \<Rightarrow> nat \<Rightarrow> vis_state \<Rightarrow> vis_state" where
  "handle_resize env clientWidth clientHeight st =
     (if canvasWidth st \<noteq> clientWidth \<or> canvasHeight st \<noteq> clientHeight then
        (let st1 = st\<lparr>canvasWidth := clientWidth, canvasHeight := clientHeight\<rparr>
         in if modeRef st1 = WATER_CIRCLE \<or> modeRef st1 = NEURAL
            then do_initPaperShards env st1 else st1)
      else st)"

text \<open>
  Everything \<open>render\<close> writes to the refs in one frame: the resize, the rotation
  accumulator (line 271), and the field of the current mode.  Neural mode also draws two
  random numbers for the camera shake (line 325), between the shards and the nodes.
\<close>

definition render_update :: "browser \<Rightarrow> nat \<Rightarrow> nat \<Rightarrow> byte list \<Rightarrow> vis_state \<Rightarrow> vis_state" where
  "render_update env clientWidth clientHeight dataArray st =
     (let st1 = handle_resize env clientWidth clientHeight st;
          WIDTH = real (canvasWidth st1);
          HEIGHT = real (canvasHeight st1);
          bass = bassLevel dataArray;
          st2 = st1\<lparr>rotationRef := rotationRef st1 + (0.002 + bass * 0.005)\<rparr>
      in case modeRef st2 of
           NEURAL \<Rightarrow>
             st2\<lparr>paperShardsRef := advance_shards WIDTH HEIGHT (paperShardsRef st2),
                 rndCursor := rndCursor st2 + 2,
                 neuralNodesRef := advance_nodes WIDTH HEIGHT bass (neuralNodesRef st2)\<rparr>
         | WATERCOLOR \<Rightarrow>
             st2\<lparr>watercolorBlobsRef :=
                   advance_blobs WIDTH HEIGHT bass (watercolorBlobsRef st2)\<rparr>
         | WATER_CIRCLE \<Rightarrow>
             st2\<lparr>paperShardsRef := advance_shards WIDTH HEIGHT (paperShardsRef st2)\<rparr>
         | _ \<Rightarrow> st2)"

subsection \<open>Circular mode (lines 651--686)\<close>

definition bassScale :: "byte list \<Rightarrow> real" where
  "bassScale dataArray = 1 + bassLevel dataArray * 0.8"

definition circular_step :: "nat \<Rightarrow> nat" where
  "circular_step bufferLength = bufferLength div 120"

definition maxBarHeight :: "real \<Rightarrow> real \<Rightarrow> real" where
  "maxBarHeight WIDTH HEIGHT = min WIDTH HEIGHT / 2"

text \<open>The length of radial bar \<open>i\<close>; \<open>None\<close> when the read is past the end of the array.\<close>

definition circular_barHeight :: "byte list \<Rightarrow> real \<Rightarrow> real \<Rightarrow> nat \<Rightarrow> real option" where
  "circular_barHeight dataArray WIDTH HEIGHT i =
     (case js_index dataArray (i * circular_step (length dataArray)) of
        None \<Rightarrow> None
      | Some d \<Rightarrow> (let val = d / 255 in Some (val * val * maxBarHeight WIDTH HEIGHT * 1.5)))"

definition circular_bars :: "byte list \<Rightarrow> real \<Rightarrow> real \<Rightarrow> real option list" where
  "circular_bars dataArray WIDTH HEIGHT =
     map (circular_barHeight dataArray WIDTH HEIGHT) [0..<120]"

subsection \<open>Wave mode (lines 706--723)\<close>

datatype path_cmd = MoveTo real real | LineTo real real

text \<open>
  What the \<open>AnalyserNode\<close> holds when a frame is rendered: the frequency magnitudes
  (\<open>frequencyBinCount\<close> bytes) and the time-domain samples (\<open>fftSize\<close> bytes, twice as
  many).
\<close>

record AnalyserNode =
  frequencyBytes :: "byte list"
  timeDomainBytes :: "byte list"

text \<open>
  Both \<open>getByte...Data\<close> calls copy into the caller's array: as many bytes as fit, the
  rest of a longer array is left as it was.
\<close>

definition copy_into :: "byte list \<Rightarrow> byte list \<Rightarrow> byte list" where
  "copy_into src array = take (length array) src @ drop (length src) array"

definition getByteFrequencyData :: "AnalyserNode \<Rightarrow> byte list \<Rightarrow> byte list" where
  "getByteFrequencyData analyser array = copy_into (frequencyBytes analyser) array"

definition getByteTimeDomainData :: "AnalyserNode \<Rightarrow> byte list \<Rightarrow> byte list" where
  "getByteTimeDomainData analyser array = copy_into (timeDomainBytes analyser) array"

text \<open>
  The loop over \<open>dataArray\<close> (lines 715--721), with the running \<open>x\<close> and the index
  \<open>i\<close>.
\<close>

fun wave_loop :: "real \<Rightarrow> real \<Rightarrow> real \<Rightarrow> nat \<Rightarrow> byte list \<Rightarrow> path_cmd list" where
  "wave_loop sliceWidth HEIGHT x i [] = []"
| "wave_loop sliceWidth HEIGHT x i (s # rest) =
     (let v = byte_val s / 128.0;
          y = v * HEIGHT / 2
      in (if i = 0 then MoveTo x y else LineTo x y)
           # wave_loop sliceWidth HEIGHT (x + sliceWidth) (Suc i) rest)"

record wave_stroke =
  strokeHue :: real
  strokePath :: "path_cmd list"

text \<open>
  Lines 709--723 on the current content of \<open>dataArray\<close>: the one stroke of a Wave frame.
  \<open>sliceWidth\<close> is used by the loop body only, so its value for an empty array (a
  division by zero in the source) is never read.
\<close>

definition wave_frame :: "byte list \<Rightarrow> real \<Rightarrow> real \<Rightarrow> real \<Rightarrow> real \<Rightarrow> wave_stroke" where
  "wave_frame dataArray WIDTH HEIGHT g time =
     (let sliceWidth = WIDTH * 1.0 / real (length dataArray)
      in \<lparr>strokeHue = dynamicHue g time,
          strokePath = wave_loop sliceWidth HEIGHT 0 0 dataArray
                         @ [LineTo WIDTH (HEIGHT / 2)]\<rparr>)"

text \<open>
  One \<open>render\<close> call in Wave mode, as far as the buffer and the stroke go: line 227
  fills \<open>dataArray\<close> with the frequency magnitudes (from which the metrics are taken),
  line 707 fills the same array again with the time-domain samples, and the stroke is
  drawn from the array as it then is.  The result is the array after the call and the
  stroke.
\<close>

definition render_wave ::
  "AnalyserNode \<Rightarrow> byte list \<Rightarrow> real \<Rightarrow> real \<Rightarrow> real \<Rightarrow> real \<Rightarrow> byte list \<times> wave_stroke" where
  "render_wave analyser dataArray WIDTH HEIGHT g time =
     (let dataArray1 = getByteFrequencyData analyser dataArray;
          dataArray2 = getByteTimeDomainData analyser dataArray1
      in (dataArray2, wave_frame dataArray2 WIDTH HEIGHT g time))"

subsection \<open>Water Circle mode (lines 414--578)\<close>

definition radiusBase :: "real \<Rightarrow> real \<Rightarrow> real" where
  "radiusBase WIDTH HEIGHT = min WIDTH HEIGHT / 4.5"

definition usefulFreqRange :: "nat \<Rightarrow> nat" where
  "usefulFreqRange bufferLength = nat \<lfloor>real bufferLength * 0.82\<rfloor>"

definition ink_step :: "nat \<Rightarrow> real" where
  "ink_step bufferLength = real (usefulFreqRange bufferLength) / 120"

definition maxExtend :: "real \<Rightarrow> real" where
  "maxExtend HEIGHT = HEIGHT * (1 / 5)"

definition poolSize :: "byte list \<Rightarrow> real \<Rightarrow> real \<Rightarrow> real" where
  "poolSize dataArray WIDTH HEIGHT =
     (radiusBase WIDTH HEIGHT * 0.5) * (0.8 + bassLevel dataArray * 0.6)"

definition centerGap :: real where
  "centerGap = 10"

definition safeInnerRadius :: "byte list \<Rightarrow> real \<Rightarrow> real \<Rightarrow> real" where
  "safeInnerRadius dataArray WIDTH HEIGHT = poolSize dataArray WIDTH HEIGHT + centerGap"

definition startRadius :: "byte list \<Rightarrow> real \<Rightarrow> real \<Rightarrow> real" where
  "startRadius dataArray WIDTH HEIGHT =
     (let startRadiusBase = radiusBase WIDTH HEIGHT * 0.9;
          beatPulse = bassLevel dataArray * (radiusBase WIDTH HEIGHT * 0.2)
      in startRadiusBase + beatPulse)"

definition ink_index :: "nat \<Rightarrow> nat \<Rightarrow> nat" where
  "ink_index bufferLength i = nat \<lfloor>real i * ink_step bufferLength\<rfloor>"

text \<open>
  The outward length of slot \<open>i\<close>.  A read past the end gives NaN, which
  \<open>Math.max\<close> and the products keep: \<open>None\<close>.
\<close>

definition ink_length :: "byte list \<Rightarrow> real \<Rightarrow> nat \<Rightarrow> real option" where
  "ink_length dataArray HEIGHT i =
     (case js_index dataArray (ink_index (length dataArray) i) of
        None \<Rightarrow> None
      | Some d \<Rightarrow>
          (let rawVal = d / 255;
               smoothedVal = max 0 (rawVal * rawVal)
           in Some (smoothedVal * maxExtend HEIGHT * (1 + bassLevel dataArray))))"

definition maxInwardLen :: "byte list \<Rightarrow> real \<Rightarrow> real \<Rightarrow> real" where
  "maxInwardLen dataArray WIDTH HEIGHT =
     max 0 (startRadius dataArray WIDTH HEIGHT - safeInnerRadius dataArray WIDTH HEIGHT)"

text \<open>\<open>Math.min\<close> of NaN and a number is NaN.\<close>

definition inwardLen :: "byte list \<Rightarrow> real \<Rightarrow> real \<Rightarrow> nat \<Rightarrow> real option" where
  "inwardLen dataArray WIDTH HEIGHT i =
     (case ink_length dataArray HEIGHT i of
        None \<Rightarrow> None
      | Some len \<Rightarrow> Some (min len (maxInwardLen dataArray WIDTH HEIGHT)))"

text \<open>
  What a Water Circle frame puts on the canvas, in drawing order: the base tone, a
  triangle for each shard, the noise raster, the glow of highlight shards (index, radius,
  opacity), the pool (radius, hue), and for each slot an outward bar (slot, start radius,
  length) and an inward bar (slot, start radius, inward length).
\<close>

datatype draw_op =
    BaseTone
  | ShardTriangle PaperShard
  | NoiseOverlay nat nat
  | ShardGlow nat real real
  | PoolDisc real real
  | OutwardBar nat real real
  | InwardBar nat real real

definition glow_of :: "byte list \<Rightarrow> nat \<times> PaperShard \<Rightarrow> draw_op list" where
  "glow_of dataArray p =
     (case p of (i, shard) \<Rightarrow>
        if isHighlight shard then
          (let trigger = (if i mod 2 = 0 then bassLevel dataArray else midLevel dataArray);
               activeOpacity = trigger * 0.6
           in if activeOpacity > 0.1
              then [ShardGlow i ((shard_size shard * 0.5) * (1 + trigger)) activeOpacity]
              else [])
        else [])"

definition glow_ops :: "byte list \<Rightarrow> PaperShard list \<Rightarrow> draw_op list" where
  "glow_ops dataArray shards =
     (let glowOpacity = min 1 (bassLevel dataArray * 0.8)
      in if glowOpacity > 0.05
         then concat (map (glow_of dataArray) (enumerate 0 shards))
         else [])"

text \<open>A comparison with NaN is false, so an undefined length draws nothing.\<close>

definition bar_ops :: "byte list \<Rightarrow> real \<Rightarrow> real \<Rightarrow> nat \<Rightarrow> draw_op list" where
  "bar_ops dataArray WIDTH HEIGHT i =
     (case ink_length dataArray HEIGHT i of
        None \<Rightarrow> []
      | Some len \<Rightarrow>
          if len > 0 then [OutwardBar i (startRadius dataArray WIDTH HEIGHT) len] else [])
     @
     (case inwardLen dataArray WIDTH HEIGHT i of
        None \<Rightarrow> []
      | Some il \<Rightarrow>
          if il > 0 then [InwardBar i (startRadius dataArray WIDTH HEIGHT) il] else [])"

text \<open>\<open>shards\<close> are the shards as this frame has moved them.\<close>

definition water_circle_frame ::
  "byte list \<Rightarrow> real \<Rightarrow> real \<Rightarrow> real \<Rightarrow> real \<Rightarrow> PaperShard list \<Rightarrow> (nat \<times> nat) option
     \<Rightarrow> draw_op list" where
  "water_circle_frame dataArray WIDTH HEIGHT g time shards noise =
     [BaseTone]
     @ map ShardTriangle shards
     @ (case noise of None \<Rightarrow> [] | Some (w, h) \<Rightarrow> [NoiseOverlay w h])
     @ glow_ops dataArray shards
     @ [PoolDisc (poolSize dataArray WIDTH HEIGHT) (poolHue dataArray g time)]
     @ concat (map (bar_ops dataArray WIDTH HEIGHT) [0..<120])"

definition is_bar :: "draw_op \<Rightarrow> bool" where
  "is_bar op = (case op of OutwardBar _ _ _ \<Rightarrow> True | InwardBar _ _ _ \<Rightarrow> True | _ \<Rightarrow> False)"

text \<open>
  One \<open>render\<close> call while \<open>modeRef\<close> is \<open>WATER_CIRCLE\<close>: the new state and what
  is drawn.  The hue shift is read from \<open>colorShiftRef\<close>, the shards are drawn where the
  call has moved them.
\<close>

definition render_water_circle ::
  "browser \<Rightarrow> nat \<Rightarrow> nat \<Rightarrow> byte list \<Rightarrow> real \<Rightarrow> vis_state \<Rightarrow> vis_state \<times> draw_op list" where
  "render_water_circle env clientWidth clientHeight dataArray time st =
     (let st1 = render_update env clientWidth clientHeight dataArray st
      in (st1, water_circle_frame dataArray (real (canvasWidth st1)) (real (canvasHeight st1))
                 (colorShiftRef st1) time (paperShardsRef st1) (noiseCanvasRef st1)))"

subsection \<open>A concrete browser for evaluation\<close>

text \<open>A window of 800 by 600 whose \<open>Math.random()\<close> cycles through 0, 0.05, ..., 0.95.\<close>

definition sample_browser :: browser where
  "sample_browser =
     \<lparr>mathRandom = (\<lambda>k. real (k mod 20) / 20), innerWidth = 800, innerHeight = 600,
      noiseCtx = True\<rparr>"

section \<open>Properties\<close>

subsection \<open>The band loop in closed form\<close>

lemma byte_val_nonneg: "0 \<le> byte_val b"
  unfolding byte_val_def by (rule of_nat_0_le_iff)

lemma byte_val_le: "byte_val b \<le> 255"
proof -
  have "unat b < 2 ^ 8" using unsigned_less [of b, where ?'a = nat] by simp
  then have "unat b \<le> 255" by simp
  then have "real (unat b) \<le> real 255" by (rule of_nat_mono)
  then show ?thesis unfolding byte_val_def by simp
qed

lemma byte_val_mono: "a \<le> b \<Longrightarrow> byte_val a \<le> byte_val b"
  unfolding byte_val_def word_le_nat_alt by (rule of_nat_mono)

lemma byte_val_0: "byte_val 0 = 0"
  by (simp add: byte_val_def)

lemma byte_val_255: "byte_val 255 = 255"
  by (simp add: byte_val_def)

lemma bassTotal_foldl:
  "bassTotal (foldl (band_step xs) acc [0..<n]) =
     bassTotal acc + (\<Sum>i<n. bass_weight i * byte_val (xs ! i))"
  by (induction n) (simp_all add: band_step_def bass_weight_def Let_def)

lemma lowMidTotal_foldl:
  "lowMidTotal (foldl (band_step xs) acc [0..<n]) =
     lowMidTotal acc + (\<Sum>i<n. if 20 \<le> i \<and> i < 100 then byte_val (xs ! i) else 0)"
  by (induction n) (simp_all add: band_step_def Let_def)

lemma highTotal_foldl:
  "highTotal (foldl (band_step xs) acc [0..<n]) =
     highTotal acc + (\<Sum>i<n. if 100 \<le> i then byte_val (xs ! i) else 0)"
  by (induction n) (simp_all add: band_step_def Let_def)

lemma bassTotal_band_loop:
  "bassTotal (band_loop xs) = (\<Sum>i<length xs. bass_weight i * byte_val (xs ! i))"
  by (simp add: band_loop_def bassTotal_foldl)

lemma lowMidTotal_band_loop:
  "lowMidTotal (band_loop xs) =
     (\<Sum>i<length xs. if 20 \<le> i \<and> i < 100 then byte_val (xs ! i) else 0)"
  by (simp add: band_loop_def lowMidTotal_foldl)

lemma highTotal_band_loop:
  "highTotal (band_loop xs) = (\<Sum>i<length xs. if 100 \<le> i then byte_val (xs ! i) else 0)"
  by (simp add: band_loop_def highTotal_foldl)

lemma bass_weight_nonneg: "0 \<le> bass_weight i"
  by (simp add: bass_weight_def)

lemma bassTotal_nonneg: "0 \<le> bassTotal (band_loop xs)"
  unfolding bassTotal_band_loop
  by (intro sum_nonneg mult_nonneg_nonneg bass_weight_nonneg byte_val_nonneg)

lemma lowMidTotal_nonneg: "0 \<le> lowMidTotal (band_loop xs)"
  unfolding lowMidTotal_band_loop by (intro sum_nonneg) (simp add: byte_val_nonneg)

lemma highTotal_nonneg: "0 \<le> highTotal (band_loop xs)"
  unfolding highTotal_band_loop by (intro sum_nonneg) (simp add: byte_val_nonneg)

lemma highTotal_short: "length xs \<le> 100 \<Longrightarrow> highTotal (band_loop xs) = 0"
  unfolding highTotal_band_loop by (intro sum.neutral) simp

lemma lowMidTotal_short: "length xs \<le> 20 \<Longrightarrow> lowMidTotal (band_loop xs) = 0"
  unfolding lowMidTotal_band_loop by (intro sum.neutral) simp

lemma bassLevel_nonneg: "0 \<le> bassLevel xs"
  by (simp add: bassLevel_def)

lemma midLevel_nonneg: "0 \<le> midLevel xs"
  by (simp add: midLevel_def lowMidAvg_def lowMidTotal_nonneg)

lemma highLevel_finite:
  assumes "length xs \<noteq> 100"
  shows "finite_nonneg (highLevel xs)"
proof -
  have ne: "real_of_int (int (length xs) - 100) \<noteq> 0" using assms by simp
  show ?thesis
  proof (cases "length xs < 100")
    case True
    then have "highTotal (band_loop xs) = 0" by (simp add: highTotal_short)
    then show ?thesis using ne
      by (simp add: highLevel_def highAvg_def js_div_def jsnum_div_const_def finite_nonneg_def)
  next
    case False
    define d where "d = real_of_int (int (length xs) - 100)"
    have d: "0 < d" using False assms by (simp add: d_def)
    have eq: "highLevel xs = Num (highTotal (band_loop xs) / d / 255)"
      using d unfolding highLevel_def highAvg_def js_div_def jsnum_div_const_def d_def [symmetric]
      by simp
    have "0 \<le> highTotal (band_loop xs) / d / 255"
      using highTotal_nonneg [of xs] d by (intro divide_nonneg_nonneg) auto
    then show ?thesis
      unfolding eq finite_nonneg_def jsnum.case .
  qed
qed

text \<open>
  C2 (as amended).  For every frequency array whose length is not exactly 100, the three
  levels are finite and non-negative, and an empty band has average and level zero: the
  high band when the length is below 100, the mid band when it is at most 20, the bass
  band when the array is empty.
\<close>

theorem metrics_defined:
  assumes "length xs \<noteq> 100"
  shows "0 \<le> bassLevel xs \<and> 0 \<le> midLevel xs \<and> finite_nonneg (highLevel xs) \<and>
         (length xs < 100 \<longrightarrow> highAvg xs = Num 0 \<and> highLevel xs = Num 0) \<and>
         (length xs \<le> 20 \<longrightarrow> lowMidAvg xs = 0 \<and> midLevel xs = 0) \<and>
         (length xs = 0 \<longrightarrow> bassAvg xs = 0 \<and> bassLevel xs = 0)"
proof -
  have h: "length xs < 100 \<longrightarrow> highAvg xs = Num 0 \<and> highLevel xs = Num 0"
    by (simp add: highLevel_def highAvg_def js_div_def jsnum_div_const_def highTotal_short)
  have m: "length xs \<le> 20 \<longrightarrow> lowMidAvg xs = 0 \<and> midLevel xs = 0"
    by (simp add: midLevel_def lowMidAvg_def lowMidTotal_short)
  have b: "length xs = 0 \<longrightarrow> bassAvg xs = 0 \<and> bassLevel xs = 0"
    by (simp add: bassLevel_def bassAvg_def bassTotal_band_loop)
  show ?thesis
    using bassLevel_nonneg midLevel_nonneg highLevel_finite [OF assms] h m b by blast
qed

theorem metrics_defined_witness:
  "bassLevel [] = 0 \<and> midLevel [] = 0 \<and> highLevel [] = Num 0 \<and>
   highLevel [255, 7] = Num 0 \<and> midLevel [255, 7] = 0 \<and> 0 \<le> bassLevel [255, 7]"
  using metrics_defined [of "[]"] metrics_defined [of "[255, 7]"] by simp

text \<open>
  C2 as stated fails for an array of exactly 100 bins: the high band is empty, the divisor
  \<open>bufferLength - 100\<close> is zero, and the average is 0/0, which is NaN.
\<close>

theorem high_band_nan: "length (replicate 100 (0::byte)) \<le> 100 \<and>
   highAvg (replicate 100 0) = NaN \<and> highLevel (replicate 100 0) = NaN \<and>
   \<not> finite_nonneg (highLevel (replicate 100 0))"
  by (simp add: highLevel_def highAvg_def js_div_def jsnum_div_const_def highTotal_short
      finite_nonneg_def)

lemma bassTotal_mono:
  assumes len: "length xs = length ys" and k: "k < length xs"
    and same: "\<forall>i<length xs. i \<noteq> k \<longrightarrow> xs ! i = ys ! i"
    and le: "ys ! k \<le> xs ! k"
  shows "bassTotal (band_loop ys) \<le> bassTotal (band_loop xs)"
  unfolding bassTotal_band_loop len [symmetric]
proof (rule sum_mono)
  fix i assume "i \<in> {..<length xs}"
  then have i: "i < length xs" by simp
  have "byte_val (ys ! i) \<le> byte_val (xs ! i)"
  proof (cases "i = k")
    case True then show ?thesis using le by (simp add: byte_val_mono)
  next
    case False then show ?thesis using same i by simp
  qed
  then show "bass_weight i * byte_val (ys ! i) \<le> bass_weight i * byte_val (xs ! i)"
    by (rule mult_left_mono) (rule bass_weight_nonneg)
qed

text \<open>
  C3.  Two frequency arrays of the same length that agree everywhere except at one index
  \<open>k\<close> of the bass band, where the first has the larger byte: the first has the larger
  (or equal) \<open>bassLevel\<close>.
\<close>

theorem bassLevel_monotone:
  assumes "length xs = length ys" and "k < length xs" and "k < 20"
    and "\<forall>i<length xs. i \<noteq> k \<longrightarrow> xs ! i = ys ! i"
    and "ys ! k \<le> xs ! k"
  shows "bassLevel ys \<le> bassLevel xs"
proof -
  have t: "bassTotal (band_loop ys) \<le> bassTotal (band_loop xs)"
    using assms by (intro bassTotal_mono [of xs ys k]) auto
  have "bassAvg ys / 255 \<le> bassAvg xs / 255"
    using t by (simp add: bassAvg_def)
  moreover have "0 \<le> bassAvg ys / 255"
    by (simp add: bassAvg_def bassTotal_nonneg)
  ultimately have "(bassAvg ys / 255)\<^sup>2 \<le> (bassAvg xs / 255)\<^sup>2"
    by (rule power_mono)
  then show ?thesis by (simp add: bassLevel_def)
qed

theorem bassLevel_monotone_witness:
  "bassLevel [0, 0, 0 :: byte] \<le> bassLevel [0, 255, 0 :: byte]"
  using bassLevel_monotone [of "[0, 255, 0]" "[0, 0, 0]" 1]
  by (simp add: less_Suc_eq numeral_3_eq_3)


subsection \<open>The rotation accumulator\<close>

lemma handle_resize_rotation [simp]:
  "rotationRef (handle_resize env cw ch st) = rotationRef st"
  by (simp add: handle_resize_def do_initPaperShards_def Let_def split: prod.splits)

text \<open>
  C10.  Every \<open>render\<close> call, whatever the state and hence whatever the mode, adds
  \<open>0.002 + bassLevel * 0.005\<close> to the rotation accumulator, and the accumulator strictly
  grows.
\<close>

theorem rotation_every_tick:
  "rotationRef (render_update env cw ch xs st) = rotationRef st + (0.002 + bassLevel xs * 0.005)
   \<and> rotationRef st < rotationRef (render_update env cw ch xs st)"
proof -
  have eq: "rotationRef (render_update env cw ch xs st)
              = rotationRef st + (0.002 + bassLevel xs * 0.005)"
    by (cases "modeRef (handle_resize env cw ch st)")
       (simp_all add: render_update_def Let_def)
  have "0 \<le> bassLevel xs" by (simp add: bassLevel_def)
  then have "0 < 0.002 + bassLevel xs * 0.005" by simp
  with eq show ?thesis by simp
qed

theorem rotation_every_tick_witness:
  "rotationRef (render_update sample_browser 800 600 [255, 255]
      ((initial_state WAVE 0 800 600)\<lparr>rotationRef := 1\<rparr>))
     = 1 + (0.002 + bassLevel [255, 255] * 0.005)
   \<and> 1 < rotationRef (render_update sample_browser 800 600 [255, 255]
      ((initial_state WAVE 0 800 600)\<lparr>rotationRef := 1\<rparr>))"
  using rotation_every_tick [of sample_browser 800 600 "[255, 255]"
      "(initial_state WAVE 0 800 600)\<lparr>rotationRef := 1\<rparr>"]
  by simp

subsection \<open>Particle fields\<close>

lemma advance_shard_in_margin:
  assumes "0 \<le> W" and "0 \<le> H"
  shows "shard_in_margin W H (advance_shard W H s)"
  using assms by (simp add: shard_in_margin_def advance_shard_def Let_def)

lemma advance_node_in_surface:
  assumes "0 \<le> W" and "0 \<le> H"
  shows "node_in_surface W H (advance_node W H bass n)"
  using assms by (simp add: node_in_surface_def advance_node_def Let_def)

lemma run_shards_in_margin:
  assumes "0 \<le> W" and "0 \<le> H"
    and "0 < n \<or> (\<forall>s\<in>set shards. shard_in_margin W H s)"
  shows "\<forall>s\<in>set (run_shards W H n shards). shard_in_margin W H s"
proof (cases n)
  case 0
  then show ?thesis using assms by (simp add: run_shards_def)
next
  case (Suc m)
  then show ?thesis
    using assms by (simp add: run_shards_def advance_shards_def advance_shard_in_margin)
qed

lemma run_nodes_in_surface:
  assumes "0 \<le> W" and "0 \<le> H"
    and "basses \<noteq> [] \<or> (\<forall>n\<in>set nodes. node_in_surface W H n)"
  shows "\<forall>n\<in>set (run_nodes W H basses nodes). node_in_surface W H n"
proof (cases basses rule: rev_cases)
  case Nil
  then show ?thesis using assms by (simp add: run_nodes_def)
next
  case (snoc bs b)
  then show ?thesis
    using assms by (simp add: run_nodes_def advance_nodes_def advance_node_in_surface)
qed

lemma fresh_shard_in_margin:
  assumes r: "\<forall>k. 0 \<le> mathRandom env k \<and> mathRandom env k < 1"
    and w: "real (innerWidth env) \<le> W + 150" and h: "real (innerHeight env) \<le> H + 150"
  shows "shard_in_margin W H (mkPaperShard env k)"
proof -
  have x0: "0 \<le> mathRandom env (k + 6) * real (innerWidth env)"
    using r by (intro mult_nonneg_nonneg) auto
  have x1: "mathRandom env (k + 6) * real (innerWidth env) \<le> 1 * real (innerWidth env)"
    using r by (intro mult_right_mono) (auto simp: less_imp_le)
  have y0: "0 \<le> mathRandom env (k + 7) * real (innerHeight env)"
    using r by (intro mult_nonneg_nonneg) auto
  have y1: "mathRandom env (k + 7) * real (innerHeight env) \<le> 1 * real (innerHeight env)"
    using r by (intro mult_right_mono) (auto simp: less_imp_le)
  show ?thesis
    using x0 x1 y0 y1 w h by (simp add: shard_in_margin_def mkPaperShard_def Let_def)
qed

lemma fresh_node_in_surface:
  assumes r: "\<forall>k. 0 \<le> mathRandom env k \<and> mathRandom env k < 1"
    and w: "real (innerWidth env) \<le> W" and h: "real (innerHeight env) \<le> H"
  shows "node_in_surface W H (mkNeuralNode env k)"
proof -
  have x0: "0 \<le> mathRandom env k * real (innerWidth env)"
    using r by (intro mult_nonneg_nonneg) auto
  have x1: "mathRandom env k * real (innerWidth env) \<le> 1 * real (innerWidth env)"
    using r by (intro mult_right_mono) (auto simp: less_imp_le)
  have y0: "0 \<le> mathRandom env (k + 1) * real (innerHeight env)"
    using r by (intro mult_nonneg_nonneg) auto
  have y1: "mathRandom env (k + 1) * real (innerHeight env) \<le> 1 * real (innerHeight env)"
    using r by (intro mult_right_mono) (auto simp: less_imp_le)
  show ?thesis
    using x0 x1 y0 y1 w h by (simp add: node_in_surface_def mkNeuralNode_def Let_def)
qed

text \<open>
  C5 (as amended).  On a canvas of \<open>cw\<close> by \<open>ch\<close> pixels: after at least one advance
  step every shard of any shard field lies within the margin of 150 around the surface
  and every node of any node field lies within the surface, whatever the window size, the
  earlier positions and the bass levels.  Before its first advance, a freshly created
  shard field lies within the margin when the window exceeds the surface by at most 150,
  and a freshly created node field lies within the surface when the window is no larger
  than the surface; from there both stay so for every number of steps.
\<close>

theorem shards_and_nodes_stay_in_margin:
  "(0 < n \<longrightarrow>
      (\<forall>s\<in>set (run_shards (real cw) (real ch) n shards).
          shard_in_margin (real cw) (real ch) s))
   \<and> (basses \<noteq> [] \<longrightarrow>
      (\<forall>nd\<in>set (run_nodes (real cw) (real ch) basses nodes).
          node_in_surface (real cw) (real ch) nd))
   \<and> ((\<forall>k. 0 \<le> mathRandom env k \<and> mathRandom env k < 1)
        \<and> innerWidth env \<le> cw + 150 \<and> innerHeight env \<le> ch + 150 \<longrightarrow>
      (\<forall>s\<in>set (run_shards (real cw) (real ch) n (fst (snd (initPaperShards env noise k)))).
          shard_in_margin (real cw) (real ch) s))
   \<and> ((\<forall>k. 0 \<le> mathRandom env k \<and> mathRandom env k < 1)
        \<and> innerWidth env \<le> cw \<and> innerHeight env \<le> ch \<longrightarrow>
      (\<forall>nd\<in>set (run_nodes (real cw) (real ch) basses (fst (initNeuralNodes env k))).
          node_in_surface (real cw) (real ch) nd))"
proof -
  have W: "0 \<le> real cw" and H: "0 \<le> real ch" by simp_all
  have a: "0 < n \<longrightarrow>
      (\<forall>s\<in>set (run_shards (real cw) (real ch) n shards).
          shard_in_margin (real cw) (real ch) s)"
    using run_shards_in_margin [OF W H] by blast
  have b: "basses \<noteq> [] \<longrightarrow>
      (\<forall>nd\<in>set (run_nodes (real cw) (real ch) basses nodes).
          node_in_surface (real cw) (real ch) nd)"
    using run_nodes_in_surface [OF W H] by blast
  have c: "(\<forall>s\<in>set (run_shards (real cw) (real ch) n (fst (snd (initPaperShards env noise k)))).
          shard_in_margin (real cw) (real ch) s)"
    if r: "\<forall>k. 0 \<le> mathRandom env k \<and> mathRandom env k < 1"
      and w: "innerWidth env \<le> cw + 150" and h: "innerHeight env \<le> ch + 150"
  proof -
    have w': "real (innerWidth env) \<le> real cw + 150" using w by linarith
    have h': "real (innerHeight env) \<le> real ch + 150" using h by linarith
    have "\<forall>s\<in>set (fst (snd (initPaperShards env noise k))). shard_in_margin (real cw) (real ch) s"
      using fresh_shard_in_margin [OF r w' h']
      by (auto simp: initPaperShards_def Let_def)
    then show ?thesis using run_shards_in_margin [OF W H] by blast
  qed
  have d: "(\<forall>nd\<in>set (run_nodes (real cw) (real ch) basses (fst (initNeuralNodes env k))).
          node_in_surface (real cw) (real ch) nd)"
    if r: "\<forall>k. 0 \<le> mathRandom env k \<and> mathRandom env k < 1"
      and w: "innerWidth env \<le> cw" and h: "innerHeight env \<le> ch"
  proof -
    have w': "real (innerWidth env) \<le> real cw" using w by simp
    have h': "real (innerHeight env) \<le> real ch" using h by simp
    have "\<forall>nd\<in>set (fst (initNeuralNodes env k)). node_in_surface (real cw) (real ch) nd"
      using fresh_node_in_surface [OF r w' h']
      by (auto simp: initNeuralNodes_def)
    then show ?thesis using run_nodes_in_surface [OF W H] by blast
  qed
  show ?thesis using a b c d by blast
qed

lemma sample_random: "\<forall>k. 0 \<le> mathRandom sample_browser k \<and> mathRandom sample_browser k < 1"
  by (simp add: sample_browser_def)

lemma length_run_shards [simp]: "length (run_shards W H n shards) = length shards"
  by (induction n) (simp_all add: run_shards_def advance_shards_def)

lemma length_run_nodes [simp]: "length (run_nodes W H basses nodes) = length nodes"
  unfolding run_nodes_def
  by (induction basses arbitrary: nodes) (simp_all add: advance_nodes_def)

lemma length_run_blobs [simp]: "length (run_blobs W H basses blobs) = length blobs"
  unfolding run_blobs_def
  by (induction basses arbitrary: blobs) (simp_all add: advance_blobs_def)

lemma length_initPaperShards [simp]: "length (fst (snd (initPaperShards env noise k))) = 150"
  by (simp add: initPaperShards_def Let_def)

lemma length_initNeuralNodes [simp]: "length (fst (initNeuralNodes env k)) = 50"
  by (simp add: initNeuralNodes_def)

lemma length_initWatercolorBlobs [simp]: "length (fst (initWatercolorBlobs env k)) = 7"
  by (simp add: initWatercolorBlobs_def)

lemma length_initNebulaStars [simp]: "length (fst (initNebulaStars env k)) = 150"
  by (simp add: initNebulaStars_def)

text \<open>
  The sample browser in a window of 1920 by 1080, larger than the surface of the
  examples.
\<close>

theorem shards_and_nodes_stay_in_margin_witness:
  "shard_in_margin 800 600
     (run_shards 800 600 2
        (fst (snd (initPaperShards (sample_browser\<lparr>innerWidth := 1920, innerHeight := 1080\<rparr>)
                     None 0))) ! 1)
   \<and> node_in_surface 800 600
     (run_nodes 800 600 [0, 1]
        (fst (initNeuralNodes (sample_browser\<lparr>innerWidth := 1920, innerHeight := 1080\<rparr>) 0)) ! 1)
   \<and> shard_in_margin 800 600
     (run_shards 800 600 0 (fst (snd (initPaperShards sample_browser None 0))) ! 1)
   \<and> node_in_surface 800 600
     (run_nodes 800 600 [] (fst (initNeuralNodes sample_browser 0)) ! 1)"
proof -
  let ?big = "sample_browser\<lparr>innerWidth := 1920, innerHeight := 1080\<rparr>"
  have r: "\<forall>k. 0 \<le> mathRandom sample_browser k \<and> mathRandom sample_browser k < 1"
    by (simp add: sample_browser_def)
  have w: "innerWidth sample_browser \<le> 800" "innerHeight sample_browser \<le> 600"
    by (simp_all add: sample_browser_def)
  note moved = shards_and_nodes_stay_in_margin
    [where n = 2 and cw = 800 and ch = 600 and basses = "[0, 1]"
       and shards = "fst (snd (initPaperShards ?big None 0))"
       and nodes = "fst (initNeuralNodes ?big 0)"]
  note fresh = shards_and_nodes_stay_in_margin
    [where n = 0 and cw = 800 and ch = 600 and basses = "[]" and env = sample_browser
       and noise = None and k = 0]
  have m1: "run_shards 800 600 2 (fst (snd (initPaperShards ?big None 0))) ! 1
          \<in> set (run_shards 800 600 2 (fst (snd (initPaperShards ?big None 0))))"
    by (rule nth_mem) simp
  have m2: "run_nodes 800 600 [0, 1] (fst (initNeuralNodes ?big 0)) ! 1
          \<in> set (run_nodes 800 600 [0, 1] (fst (initNeuralNodes ?big 0)))"
    by (rule nth_mem) simp
  have m3: "run_shards 800 600 0 (fst (snd (initPaperShards sample_browser None 0))) ! 1
          \<in> set (run_shards 800 600 0 (fst (snd (initPaperShards sample_browser None 0))))"
    by (rule nth_mem) simp
  have m4: "run_nodes 800 600 [] (fst (initNeuralNodes sample_browser 0)) ! 1
          \<in> set (run_nodes 800 600 [] (fst (initNeuralNodes sample_browser 0)))"
    by (rule nth_mem) simp
  have p1: "shard_in_margin 800 600
     (run_shards 800 600 2 (fst (snd (initPaperShards ?big None 0))) ! 1)"
    using moved m1 by simp
  have p2: "node_in_surface 800 600 (run_nodes 800 600 [0, 1] (fst (initNeuralNodes ?big 0)) ! 1)"
    using moved m2 by simp
  have p3: "shard_in_margin 800 600
     (run_shards 800 600 0 (fst (snd (initPaperShards sample_browser None 0))) ! 1)"
    using fresh r w m3 by simp
  have p4: "node_in_surface 800 600
     (run_nodes 800 600 [] (fst (initNeuralNodes sample_browser 0)) ! 1)"
    using fresh r w m4 by simp
  show ?thesis using p1 p2 p3 p4 by blast
qed

text \<open>
  A blob that moves left in silence keeps its velocity and moves in a straight line as long
  as it has not passed the left bound.
\<close>

lemma blob_drift:
  assumes "blob_vx b \<le> 0" and "blob_x b \<le> W + 100"
    and "- 100 \<le> blob_x b + real n * blob_vx b"
  shows "blob_x (((advance_blob W H 0) ^^ n) b) = blob_x b + real n * blob_vx b
       \<and> blob_vx (((advance_blob W H 0) ^^ n) b) = blob_vx b"
  using assms
proof (induction n)
  case 0
  then show ?case by simp
next
  case (Suc n)
  have "real n * blob_vx b \<ge> real (Suc n) * blob_vx b"
    using Suc.prems(1) by (simp add: algebra_simps)
  then have a: "- 100 \<le> blob_x b + real n * blob_vx b" using Suc.prems(3) by linarith
  note ih = Suc.IH [OF Suc.prems(1,2) a]
  have up: "blob_x b + real (Suc n) * blob_vx b \<le> W + 100"
    using Suc.prems(1,2) by (smt (verit) mult_nonneg_nonpos of_nat_0_le_iff)
  show ?case
    using ih Suc.prems(3) up
    by (simp add: advance_blob_def Let_def algebra_simps)
qed

lemma run_blobs_const:
  "run_blobs W H (replicate n bass) blobs = map ((advance_blob W H bass) ^^ n) blobs"
  unfolding run_blobs_def
proof (induction n arbitrary: blobs)
  case 0
  then show ?case by simp
next
  case (Suc n)
  have "foldl (\<lambda>bs bass. advance_blobs W H bass bs) blobs (replicate (Suc n) bass)
          = foldl (\<lambda>bs bass. advance_blobs W H bass bs) (advance_blobs W H bass blobs)
              (replicate n bass)"
    by simp
  also have "\<dots> = map ((advance_blob W H bass) ^^ n) (advance_blobs W H bass blobs)"
    by (rule Suc.IH)
  also have "\<dots> = map ((advance_blob W H bass) ^^ Suc n) blobs"
    by (simp add: advance_blobs_def funpow_swap1)
  finally show ?case .
qed

lemma first_blob:
  "hd (fst (initWatercolorBlobs sample_browser 0)) = mkWatercolorBlob sample_browser 0"
  by (simp add: initWatercolorBlobs_def upt_conv_Cons)

lemma first_blob_x: "blob_x (mkWatercolorBlob sample_browser 0) = 0"
  and first_blob_vx: "blob_vx (mkWatercolorBlob sample_browser 0) = - 3 / 20"
  by (simp_all add: mkWatercolorBlob_def sample_browser_def)

lemma big_window_shard:
  "shard_x (fst (snd (initPaperShards
       (sample_browser\<lparr>innerWidth := 1920, innerHeight := 1080\<rparr>) None 0)) ! 1) = 1728"
proof -
  have "fst (snd (initPaperShards
       (sample_browser\<lparr>innerWidth := 1920, innerHeight := 1080\<rparr>) None 0)) ! 1
     = mkPaperShard (sample_browser\<lparr>innerWidth := 1920, innerHeight := 1080\<rparr>) 4147212"
    by (simp add: initPaperShards_def Let_def sample_browser_def)
  then show ?thesis by (simp add: mkPaperShard_def Let_def sample_browser_def)
qed

text \<open>
  C5 as stated fails in two places.  The Watercolor field: the first blob of a fresh field
  starts at \<open>x = 0\<close> with \<open>vx = -0.15\<close>; after 667 silent ticks it is at
  \<open>x = -100.05\<close>, beyond the bound extended by 100, because the bounce inverts the
  velocity and leaves the position where it is.  And zero advance steps: the fields are
  created for the window, so in a window of 1920 by 1080 the second shard of a fresh field
  is at \<open>x = 1728\<close>, outside the margin of a surface of 800 by 600, until its first
  advance wraps it.
\<close>

theorem fields_leave_bounds:
  "blob_in_extended 800 600 (hd (fst (initWatercolorBlobs sample_browser 0)))
   \<and> \<not> blob_in_extended 800 600
         (hd (run_blobs 800 600 (replicate 667 0) (fst (initWatercolorBlobs sample_browser 0))))
   \<and> \<not> shard_in_margin 800 600
         (run_shards 800 600 0
            (fst (snd (initPaperShards
               (sample_browser\<lparr>innerWidth := 1920, innerHeight := 1080\<rparr>) None 0))) ! 1)"
proof -
  let ?b = "mkWatercolorBlob sample_browser 0"
  have ne: "fst (initWatercolorBlobs sample_browser 0) \<noteq> []"
    by (simp add: initWatercolorBlobs_def upt_conv_Cons)
  have d: "blob_x (((advance_blob 800 600 0) ^^ 666) ?b) = 0 + real 666 * (- 3 / 20)
         \<and> blob_vx (((advance_blob 800 600 0) ^^ 666) ?b) = - 3 / 20"
    using blob_drift [of ?b 800 666 600] by (simp add: first_blob_x first_blob_vx)
  have "((advance_blob 800 600 0) ^^ 667) ?b
          = advance_blob 800 600 0 (((advance_blob 800 600 0) ^^ 666) ?b)"
    by (simp add: numeral_eq_Suc)
  then have "blob_x (((advance_blob 800 600 0) ^^ 667) ?b) = - 2001 / 20"
    using d by (simp add: advance_blob_def Let_def)
  then have out: "\<not> blob_in_extended 800 600 (((advance_blob 800 600 0) ^^ 667) ?b)"
    by (simp add: blob_in_extended_def)
  have fresh: "blob_in_extended 800 600 ?b"
    by (simp add: blob_in_extended_def mkWatercolorBlob_def sample_browser_def)
  have blob: "blob_in_extended 800 600 (hd (fst (initWatercolorBlobs sample_browser 0)))
   \<and> \<not> blob_in_extended 800 600
         (hd (run_blobs 800 600 (replicate 667 0) (fst (initWatercolorBlobs sample_browser 0))))"
    using out fresh ne by (simp add: run_blobs_const hd_map first_blob)
  have shard: "\<not> shard_in_margin 800 600
         (run_shards 800 600 0
            (fst (snd (initPaperShards
               (sample_browser\<lparr>innerWidth := 1920, innerHeight := 1080\<rparr>) None 0))) ! 1)"
    unfolding run_shards_def funpow_0 shard_in_margin_def big_window_shard by simp
  show ?thesis using blob shard by blast
qed

subsection \<open>Initialisation effects\<close>

lemma mode_effect_idem: "mode_effect env m (mode_effect env m st) = mode_effect env m st"
  by (cases m)
     (simp_all add: mode_effect_def Let_def do_initNeuralNodes_def do_initWatercolorBlobs_def
        do_initNebulaStars_def do_initPaperShards_def initNeuralNodes_def
        initWatercolorBlobs_def initNebulaStars_def initPaperShards_def split: prod.splits)

lemma mode_effect_creates_blobs:
  "length (watercolorBlobsRef (mode_effect env WATERCOLOR (initial_state m c cw ch))) = 7"
  by (simp add: mode_effect_def Let_def do_initWatercolorBlobs_def initWatercolorBlobs_def
      initial_state_def)

lemma nebula_keeps_blobs:
  "watercolorBlobsRef (mode_effect env NEBULA st) = watercolorBlobsRef st"
  by (simp add: mode_effect_def Let_def do_initNebulaStars_def split: prod.splits)

lemma watercolor_again_keeps_blobs:
  "watercolorBlobsRef st \<noteq> [] \<Longrightarrow>
   watercolorBlobsRef (mode_effect env WATERCOLOR st) = watercolorBlobsRef st"
  by (simp add: mode_effect_def Let_def)

lemma nebula_tick_keeps_blobs:
  "modeRef st = NEBULA \<Longrightarrow>
   watercolorBlobsRef (render_update env cw ch xs st) = watercolorBlobsRef st"
  by (simp add: render_update_def handle_resize_def Let_def)

lemma setup_effect_guards_shards:
  "paperShardsRef st \<noteq> [] \<Longrightarrow> paperShardsRef (setup_effect env m st) = paperShardsRef st"
  by (cases m)
     (simp_all add: setup_effect_def Let_def do_initNeuralNodes_def do_initWatercolorBlobs_def
        do_initNebulaStars_def split: prod.splits)

text \<open>
  C9 at the failing input: the component mounts in Watercolor mode.  The mode effect
  creates the seven blobs, and the set-up effect that follows creates seven new ones from
  fresh random draws: the horizontal positions before and after.
\<close>

theorem setup_effect_recreates_blobs:
  "map blob_x (watercolorBlobsRef
       (mode_effect sample_browser WATERCOLOR (initial_state WATERCOLOR 0 800 600)))
     = [0, 280, 560, 40, 320, 600, 80]
   \<and> map blob_x (watercolorBlobsRef
       (setup_effect sample_browser WATERCOLOR
          (mode_effect sample_browser WATERCOLOR (initial_state WATERCOLOR 0 800 600))))
     = [360, 640, 120, 400, 680, 160, 440]"
  by (simp add: setup_effect_def mode_effect_def Let_def do_initWatercolorBlobs_def
      initWatercolorBlobs_def initial_state_def mkWatercolorBlob_def sample_browser_def
      upt_conv_Cons)

subsection \<open>Hues\<close>

lemma cos_one_pos: "0 < cos (1::real)"
proof -
  have "\<bar>sin (1/2 :: real)\<bar> \<le> 1/2" using abs_sin_x_le_abs_x [of "1/2"] by simp
  then have "(sin (1/2 :: real))\<^sup>2 \<le> (1/2)\<^sup>2"
    by (metis abs_ge_zero power2_abs power_mono)
  then have "1 - 2 * (sin (1/2 :: real))\<^sup>2 \<ge> 1/2" by (simp add: power2_eq_square)
  moreover have "cos (1::real) = 1 - 2 * (sin (1/2))\<^sup>2"
    using cos_double_sin [of "1/2 :: real"] by simp
  ultimately show ?thesis by linarith
qed

lemma pi_gt_two: "2 < pi"
proof (rule ccontr)
  assume "\<not> 2 < pi"
  then have "pi = 2" using pi_ge_two by linarith
  then have "cos (1::real) = 0" using cos_pi_half by simp
  then show False using cos_one_pos by simp
qed

lemma sin_four_neg: "sin (4::real) < 0"
  using pi_gt_two pi_less_4 by (intro sin_lt_zero) auto

lemma js_rem_nonneg:
  assumes "0 \<le> x"
  shows "0 \<le> js_rem x 360 \<and> js_rem x 360 < 360"
proof -
  have t: "js_trunc (x / 360) = \<lfloor>x / 360\<rfloor>" using assms by (simp add: js_trunc_def)
  have "of_int \<lfloor>x / 360\<rfloor> \<le> x / 360" and "x / 360 < of_int \<lfloor>x / 360\<rfloor> + 1"
    by linarith+
  then show ?thesis unfolding js_rem_def t by (simp add: field_simps)
qed

lemma js_rem_small_neg:
  assumes "- 360 < x" and "x < 0"
  shows "js_rem x 360 = x"
proof -
  have "\<lceil>x / 360\<rceil> = 0" using assms by (intro ceiling_unique) auto
  then show ?thesis using assms by (simp add: js_rem_def js_trunc_def)
qed

lemma js_rem_range:
  assumes "- 54 \<le> x"
  shows "- 54 \<le> js_rem x 360 \<and> js_rem x 360 < 360"
proof (cases "0 \<le> x")
  case True
  then show ?thesis using js_rem_nonneg [of x] by linarith
next
  case False
  then show ?thesis using assms js_rem_small_neg [of x] by simp
qed

lemma hueWobble_bounds: "- 54 \<le> hueWobble t \<and> hueWobble t \<le> 54"
  using sin_ge_minus_one [of "t * 0.5"] sin_le_one [of "t * 0.5"]
  by (simp add: hueWobble_def)

lemma bass_weight_total: "(\<Sum>i<20. bass_weight i * c) = 17 * c"
  by (simp add: eval_nat_numeral bass_weight_def algebra_simps)

lemma bass_sum_cut:
  "20 \<le> n \<Longrightarrow> (\<Sum>i<n. bass_weight i * f i) = (\<Sum>i<20. bass_weight i * f i)"
  by (intro sum.mono_neutral_right) (auto simp: bass_weight_def)

lemma bassTotal_le: "bassTotal (band_loop xs) \<le> 4335"
proof -
  have "bassTotal (band_loop xs) \<le> (\<Sum>i<length xs. bass_weight i * 255)"
    unfolding bassTotal_band_loop
    by (intro sum_mono mult_left_mono byte_val_le bass_weight_nonneg)
  also have "\<dots> \<le> (\<Sum>i<length xs + 20. bass_weight i * 255)"
    by (intro sum_mono2) (auto simp: bass_weight_nonneg)
  also have "\<dots> = (\<Sum>i<20. bass_weight i * 255)"
    by (rule bass_sum_cut) simp
  also have "\<dots> = 4335" by (simp add: bass_weight_total)
  finally show ?thesis .
qed

lemma bassLevel_le: "bassLevel xs \<le> 289 / 200"
proof -
  have "bassAvg xs / 255 \<le> 17 / 20"
    using bassTotal_le [of xs] by (simp add: bassAvg_def)
  moreover have "0 \<le> bassAvg xs / 255" by (simp add: bassAvg_def bassTotal_nonneg)
  ultimately have "(bassAvg xs / 255)\<^sup>2 \<le> (17 / 20)\<^sup>2" by (rule power_mono)
  then show ?thesis by (simp add: bassLevel_def power2_eq_square)
qed

lemma bassTotal_full: "bassTotal (band_loop (replicate 1024 255)) = 4335"
proof -
  have "bassTotal (band_loop (replicate 1024 255))
          = (\<Sum>i<1024. bass_weight i * byte_val (replicate 1024 255 ! i))"
    by (simp add: bassTotal_band_loop)
  also have "\<dots> = (\<Sum>i<20. bass_weight i * byte_val (replicate 1024 255 ! i))"
    by (rule bass_sum_cut) simp
  also have "\<dots> = (\<Sum>i<20. bass_weight i * 255)"
    by (intro sum.cong) (simp_all add: byte_val_def)
  also have "\<dots> = 4335" by (simp add: bass_weight_total)
  finally show ?thesis .
qed

lemma bassLevel_full: "bassLevel (replicate 1024 255) = 289 / 200"
  by (simp add: bassLevel_def bassAvg_def bassTotal_full power2_eq_square)

lemma fresh_blob_colorH:
  assumes "0 \<le> mathRandom env (k + 3)" and "mathRandom env (k + 3) < 1"
  shows "200 \<le> colorH (mkWatercolorBlob env k) \<and> colorH (mkWatercolorBlob env k) < 260"
  using assms by (simp add: mkWatercolorBlob_def)

text \<open>
  C1 (as amended).  For a hue shift in \<open>[0,360)\<close> and an elapsed time of at least 0:
  the base hue of the classic modes and their bar hues lie in \<open>[-54,360)\<close>, the base hue
  is non-negative whenever shift plus wobble is; and every hue of the Neural, Watercolor
  (blob hue in \<open>[200,260)\<close>), Water Circle and Nebula modes lies in \<open>[0,360)\<close>.
\<close>

theorem hues_in_range:
  assumes g: "0 \<le> g" "g < 360" and t: "0 \<le> time"
  shows "(- 54 \<le> dynamicHue g time \<and> dynamicHue g time < 360)
       \<and> (0 \<le> g + hueWobble time \<longrightarrow> 0 \<le> dynamicHue g time)
       \<and> (0 \<le> neural_baseHue g time \<and> neural_baseHue g time < 360)
       \<and> (200 \<le> c \<and> c < 260 \<longrightarrow>
            0 \<le> watercolor_h c g time \<and> watercolor_h c g time < 360)
       \<and> (0 \<le> poolHue xs g time \<and> poolHue xs g time < 360)
       \<and> (0 \<le> ink_barHue i g time \<and> ink_barHue i g time < 360)
       \<and> (0 \<le> hPurple g time \<and> hPurple g time < 360)
       \<and> (0 \<le> hPink g time \<and> hPink g time < 360)
       \<and> (0 \<le> hBlue g time \<and> hBlue g time < 360)
       \<and> (- 54 \<le> circular_barHue i g time \<and> circular_barHue i g time < 360)
       \<and> (- 54 \<le> bars_barHue n i g time \<and> bars_barHue n i g time < 360)"
proof -
  note w = hueWobble_bounds [of time]
  have d: "- 54 \<le> dynamicHue g time \<and> dynamicHue g time < 360"
    unfolding dynamicHue_def using g w by (intro js_rem_range) linarith
  have d0: "0 \<le> g + hueWobble time \<longrightarrow> 0 \<le> dynamicHue g time"
    unfolding dynamicHue_def using js_rem_nonneg by blast
  have nb: "0 \<le> neural_baseHue g time \<and> neural_baseHue g time < 360"
    unfolding neural_baseHue_def using g w by (intro js_rem_nonneg) linarith
  have wc: "200 \<le> c \<and> c < 260 \<longrightarrow>
              0 \<le> watercolor_h c g time \<and> watercolor_h c g time < 360"
    unfolding watercolor_h_def using g w by (intro impI js_rem_nonneg) linarith
  have ph: "0 \<le> poolHue xs g time \<and> poolHue xs g time < 360"
    unfolding poolHue_def using g w bassLevel_le [of xs] by (intro js_rem_nonneg) linarith
  have i: "0 \<le> real i / 120 * 60" by simp
  have ib: "0 \<le> ink_barHue i g time \<and> ink_barHue i g time < 360"
    unfolding ink_barHue_def using g w i by (intro js_rem_nonneg) linarith
  have pu: "0 \<le> hPurple g time \<and> hPurple g time < 360"
    unfolding hPurple_def using g w by (intro js_rem_nonneg) linarith
  have pi: "0 \<le> hPink g time \<and> hPink g time < 360"
    unfolding hPink_def using g w by (intro js_rem_nonneg) linarith
  have bl: "0 \<le> hBlue g time \<and> hBlue g time < 360"
    unfolding hBlue_def using g w by (intro js_rem_nonneg) linarith
  have cb: "- 54 \<le> circular_barHue i g time \<and> circular_barHue i g time < 360"
    unfolding circular_barHue_def using d i by (intro js_rem_range) linarith
  have "0 \<le> real i / real n * 60" by simp
  then have bb: "- 54 \<le> bars_barHue n i g time \<and> bars_barHue n i g time < 360"
    unfolding bars_barHue_def using d by (intro js_rem_range) linarith
  show ?thesis
    using d d0 nb wc ph ib pu pi bl cb bb by blast
qed

theorem hues_in_range_witness:
  "0 \<le> dynamicHue 300 8 \<and> dynamicHue 300 8 < 360
   \<and> 0 \<le> watercolor_h 230 300 8 \<and> watercolor_h 230 300 8 < 360
   \<and> 0 \<le> neural_baseHue 300 8 \<and> neural_baseHue 300 8 < 360"
  using hues_in_range [where g = 300 and time = 8 and c = 230] hueWobble_bounds [of 8]
  by simp


text \<open>
  C1 as stated fails: with hue shift 0, eight seconds after the start the wobble is
  \<open>54 * sin 4\<close>, which is negative, and \<open>%\<close> keeps the sign.
\<close>

theorem base_hue_negative:
  "(0::real) \<le> 0 \<and> (0::real) < 360 \<and> (0::real) \<le> 8 \<and> dynamicHue 0 8 < 0"
proof -
  have s: "sin (4::real) < 0" by (rule sin_four_neg)
  have lo: "- 360 < sin (4::real) * 54" using sin_ge_minus_one [of "4::real"] by linarith
  have hi: "sin (4::real) * 54 < 0" using s by simp
  have "dynamicHue 0 8 = sin (4::real) * 54"
    using js_rem_small_neg [OF lo hi] by (simp add: dynamicHue_def hueWobble_def)
  then show ?thesis using hi by simp
qed

subsection \<open>Circular mode at full scale\<close>

lemma full_scale_bar:
  assumes "i < 120"
  shows "circular_barHeight (replicate 1024 255) W H i = Some (maxBarHeight W H * 1.5)"
proof -
  have "i * 8 < 1024" using assms by simp
  then show ?thesis
    by (simp add: circular_barHeight_def circular_step_def js_index_def byte_val_def)
qed

text \<open>
  C4 (as amended).  For 1024 bins that are all 255, each of the 120 radial bars has length
  \<open>maxBarHeight * 1.5\<close>; \<open>bassLevel\<close> is 1.445 and the scale of the central disc is
  \<open>1 + 1.445 * 0.8\<close>.
\<close>

theorem full_scale_circular:
  "circular_bars (replicate 1024 255) W H = replicate 120 (Some (maxBarHeight W H * 1.5))
   \<and> bassLevel (replicate 1024 255) = 1.445
   \<and> bassScale (replicate 1024 255) = 1 + 1.445 * 0.8"
proof -
  have "circular_bars (replicate 1024 255) W H = replicate 120 (Some (maxBarHeight W H * 1.5))"
    unfolding circular_bars_def
    by (rule nth_equalityI) (simp_all add: full_scale_bar)
  then show ?thesis by (simp add: bassScale_def bassLevel_full)
qed

text \<open>
  C4 as stated fails: at full scale the disc scale is not \<open>1 + 0.8\<close>, and
  \<open>bassLevel\<close> does not reach 2.
\<close>

theorem full_scale_disc_not_saturated:
  "bassScale (replicate 1024 255) \<noteq> 1 + 0.8 \<and> bassLevel (replicate 1024 255) \<noteq> 2
   \<and> bassScale (replicate 1024 255) \<noteq> 1 + 2 * 0.8"
  by (simp add: bassScale_def bassLevel_full)

subsection \<open>Water Circle mode\<close>

lemma bassTotal_silence: "bassTotal (band_loop (replicate n 0)) = 0"
  unfolding bassTotal_band_loop by (intro sum.neutral) (simp add: byte_val_def)

lemma bassLevel_silence: "bassLevel (replicate n 0) = 0"
  by (simp add: bassLevel_def bassAvg_def bassTotal_silence)

lemma ink_index_in_range:
  assumes "0 < n" and "i < 120"
  shows "ink_index n i < n"
proof -
  have u: "real (usefulFreqRange n) \<le> real n * 0.82"
    unfolding usefulFreqRange_def by (simp add: of_nat_nat) linarith
  have "real i * ink_step n \<le> 119 * (real (usefulFreqRange n) / 120)"
    unfolding ink_step_def using assms(2) by (intro mult_right_mono) auto
  also have "\<dots> \<le> 119 * (real n * 0.82 / 120)" using u by simp
  also have "\<dots> < real n" using assms(1) by simp
  finally have lt: "real i * ink_step n < real n" .
  have "0 \<le> real i * ink_step n" by (simp add: ink_step_def)
  then have "real (nat \<lfloor>real i * ink_step n\<rfloor>) \<le> real i * ink_step n"
    by (simp add: of_nat_nat)
  then have "real (ink_index n i) < real n" using lt by (simp add: ink_index_def)
  then show ?thesis by simp
qed

lemma silence_ink_length:
  assumes "0 < n" and "i < 120"
  shows "ink_length (replicate n 0) H i = Some 0"
  using ink_index_in_range [OF assms]
  by (simp add: ink_length_def js_index_def byte_val_def)

lemma silence_inwardLen:
  assumes "0 < n" and "i < 120"
  shows "inwardLen (replicate n 0) W H i = Some 0"
  by (simp add: inwardLen_def silence_ink_length [OF assms] maxInwardLen_def)

lemma silence_bar_ops: "bar_ops (replicate n 0) W H i = []"
proof -
  have "ink_length (replicate n 0) H i = None \<or> ink_length (replicate n 0) H i = Some 0"
    by (simp add: ink_length_def js_index_def byte_val_def)
  then show ?thesis
    by (auto simp: bar_ops_def inwardLen_def maxInwardLen_def)
qed

lemma silence_glow_ops: "glow_ops (replicate n 0) shards = []"
  by (simp add: glow_ops_def bassLevel_silence)

lemma silence_frame:
  "water_circle_frame (replicate n 0) W H g time shards noise =
     [BaseTone] @ map ShardTriangle shards
       @ (case noise of None \<Rightarrow> [] | Some (w, h) \<Rightarrow> [NoiseOverlay w h])
       @ [PoolDisc (radiusBase W H * 0.5 * 0.8) (js_rem (200 + g + hueWobble time) 360)]"
  by (simp add: water_circle_frame_def silence_bar_ops silence_glow_ops poolSize_def
      poolHue_def bassLevel_silence)

lemma modeRef_mode_effect: "modeRef (mode_effect env m st) = m"
  by (simp add: mode_effect_def Let_def do_initNeuralNodes_def do_initWatercolorBlobs_def
      do_initNebulaStars_def do_initPaperShards_def split: prod.splits)

lemma water_circle_effect_shards: "paperShardsRef (mode_effect env WATER_CIRCLE st0) \<noteq> []"
  by (simp add: mode_effect_def Let_def do_initPaperShards_def initPaperShards_def)

lemma water_circle_effect_noise:
  assumes "noiseCtx env" and "paperShardsRef st0 \<noteq> [] \<longrightarrow> noiseCanvasRef st0 \<noteq> None"
  shows "noiseCanvasRef (mode_effect env WATER_CIRCLE st0) \<noteq> None"
  using assms
  by (simp add: mode_effect_def Let_def do_initPaperShards_def initPaperShards_def)

lemma handle_resize_modeRef: "modeRef (handle_resize env cw ch st) = modeRef st"
  by (simp add: handle_resize_def do_initPaperShards_def Let_def split: prod.splits)

lemma handle_resize_shards:
  "paperShardsRef st \<noteq> [] \<Longrightarrow> paperShardsRef (handle_resize env cw ch st) \<noteq> []"
  by (simp add: handle_resize_def do_initPaperShards_def initPaperShards_def Let_def)

lemma handle_resize_noise:
  "noiseCanvasRef st \<noteq> None \<Longrightarrow> noiseCanvasRef (handle_resize env cw ch st) \<noteq> None"
  by (simp add: handle_resize_def do_initPaperShards_def initPaperShards_def Let_def)

lemma render_update_water_circle:
  assumes "modeRef st = WATER_CIRCLE"
  shows "paperShardsRef (render_update env cw ch xs st) =
           advance_shards (real (canvasWidth (handle_resize env cw ch st)))
             (real (canvasHeight (handle_resize env cw ch st)))
             (paperShardsRef (handle_resize env cw ch st))"
    and "noiseCanvasRef (render_update env cw ch xs st) =
           noiseCanvasRef (handle_resize env cw ch st)"
  using assms by (simp_all add: render_update_def Let_def handle_resize_modeRef)

text \<open>
  C6.  The component enters Water Circle mode (from any state \<open>st0\<close>) and renders a
  frame for a non-empty spectrum of zeros.  The outward and the inward length of every
  slot are exactly zero and the frame contains no bar.  The shard field is not empty, and
  the noise raster exists when the browser gives the noise canvas a 2d context (and every
  earlier shard field came with its raster, as \<open>initPaperShards\<close> ensures).  The frame is
  the base tone, one triangle for each shard, the noise raster and the pool.
\<close>

theorem silence_draws_no_bars:
  assumes "0 < n" and "i < 120"
  shows "ink_length (replicate n 0) H i = Some 0
       \<and> inwardLen (replicate n 0) W H i = Some 0
       \<and> (case render_water_circle env cw ch (replicate n 0) time
                 (mode_effect env WATER_CIRCLE st0) of
            (st1, frame) \<Rightarrow>
              filter is_bar frame = [] \<and>
              paperShardsRef st1 \<noteq> [] \<and>
              (noiseCtx env \<and> (paperShardsRef st0 \<noteq> [] \<longrightarrow> noiseCanvasRef st0 \<noteq> None)
                 \<longrightarrow> noiseCanvasRef st1 \<noteq> None) \<and>
              frame =
                [BaseTone] @ map ShardTriangle (paperShardsRef st1)
                @ (case noiseCanvasRef st1 of None \<Rightarrow> [] | Some (w, h) \<Rightarrow> [NoiseOverlay w h])
                @ [PoolDisc
                     (radiusBase (real (canvasWidth st1)) (real (canvasHeight st1)) * 0.5 * 0.8)
                     (js_rem (200 + colorShiftRef st1 + hueWobble time) 360)])"
proof -
  let ?st = "mode_effect env WATER_CIRCLE st0"
  let ?st1 = "render_update env cw ch (replicate n 0) ?st"
  have m: "modeRef ?st = WATER_CIRCLE" by (rule modeRef_mode_effect)
  have nobar: "filter is_bar (water_circle_frame (replicate n 0) W' H' g time shards noise) = []"
    for W' H' g shards noise
    unfolding silence_frame
    by (cases noise) (auto simp: is_bar_def filter_empty_conv)
  have sh: "paperShardsRef ?st1 \<noteq> []"
    using handle_resize_shards [OF water_circle_effect_shards, of env cw ch env st0]
    by (simp add: render_update_water_circle(1) [OF m] advance_shards_def)
  have no: "noiseCanvasRef ?st1 \<noteq> None"
    if "noiseCtx env" and "paperShardsRef st0 \<noteq> [] \<longrightarrow> noiseCanvasRef st0 \<noteq> None"
    using handle_resize_noise [OF water_circle_effect_noise [OF that]]
    by (simp add: render_update_water_circle(2) [OF m])
  show ?thesis
    using silence_ink_length [OF assms] silence_inwardLen [OF assms] nobar sh no
    by (simp add: render_water_circle_def Let_def silence_frame)
qed

theorem silence_draws_no_bars_witness:
  "filter is_bar (snd (render_water_circle sample_browser 800 600 (replicate 1024 0) 3
        (mode_effect sample_browser WATER_CIRCLE (initial_state WATER_CIRCLE 0 800 600)))) = []
   \<and> length (snd (render_water_circle sample_browser 800 600 (replicate 1024 0) 3
        (mode_effect sample_browser WATER_CIRCLE (initial_state WATER_CIRCLE 0 800 600)))) = 153
   \<and> snd (render_water_circle sample_browser 800 600 (replicate 1024 0) 3
        (mode_effect sample_browser WATER_CIRCLE (initial_state WATER_CIRCLE 0 800 600))) ! 150
       = ShardTriangle (paperShardsRef (fst (render_water_circle sample_browser 800 600
            (replicate 1024 0) 3
            (mode_effect sample_browser WATER_CIRCLE (initial_state WATER_CIRCLE 0 800 600)))) ! 149)
   \<and> snd (render_water_circle sample_browser 800 600 (replicate 1024 0) 3
        (mode_effect sample_browser WATER_CIRCLE (initial_state WATER_CIRCLE 0 800 600))) ! 151
       = NoiseOverlay 800 600
   \<and> snd (render_water_circle sample_browser 800 600 (replicate 1024 0) 3
        (mode_effect sample_browser WATER_CIRCLE (initial_state WATER_CIRCLE 0 800 600))) ! 152
       = PoolDisc (160 / 3) (js_rem (200 + hueWobble 3) 360)"
proof -
  let ?r = "render_water_circle sample_browser 800 600 (replicate 1024 0) 3
        (mode_effect sample_browser WATER_CIRCLE (initial_state WATER_CIRCLE 0 800 600))"
  have n: "0 < (1024::nat)" and i: "(7::nat) < 120" by simp_all
  note t = silence_draws_no_bars [OF n i, where env = sample_browser and cw = 800 and ch = 600
      and time = 3 and ?st0.0 = "initial_state WATER_CIRCLE 0 800 600"
      and H = 600 and W = 800,
      unfolded case_prod_beta]
  note nobar = t [THEN conjunct2, THEN conjunct2, THEN conjunct1]
  note frame = t [THEN conjunct2, THEN conjunct2, THEN conjunct2, THEN conjunct2, THEN conjunct2]
  have len: "length (paperShardsRef (fst ?r)) = 150"
    by (simp add: render_water_circle_def render_update_def handle_resize_def mode_effect_def
        do_initPaperShards_def initPaperShards_def initial_state_def advance_shards_def Let_def)
  have noise: "noiseCanvasRef (fst ?r) = Some (800, 600)"
    by (simp add: render_water_circle_def render_update_def handle_resize_def mode_effect_def
        do_initPaperShards_def initPaperShards_def initial_state_def sample_browser_def Let_def)
  have dims: "canvasWidth (fst ?r) = 800" "canvasHeight (fst ?r) = 600" "colorShiftRef (fst ?r) = 0"
    by (simp_all add: render_water_circle_def render_update_def handle_resize_def mode_effect_def
        do_initPaperShards_def initPaperShards_def initial_state_def Let_def)
  have l: "length (snd ?r) = 153" unfolding frame by (simp add: len noise)
  have a: "snd ?r ! 150 = ShardTriangle (paperShardsRef (fst ?r) ! 149)"
    unfolding frame by (simp add: len nth_append)
  have b: "snd ?r ! 151 = NoiseOverlay 800 600"
    unfolding frame by (simp add: len noise nth_append)
  have c: "snd ?r ! 152 = PoolDisc (160 / 3) (js_rem (200 + hueWobble 3) 360)"
    unfolding frame by (simp add: len noise dims nth_append radiusBase_def)
  show ?thesis using nobar l a b c by blast
qed

lemma glow_of_no_bar: "InwardBar i r il \<notin> set (glow_of xs p)"
  by (cases p) (simp add: glow_of_def Let_def)

lemma glow_ops_no_bar: "InwardBar i r il \<notin> set (glow_ops xs shards)"
  by (auto simp: glow_ops_def Let_def glow_of_no_bar)

lemma inward_in_bar_ops:
  "InwardBar i r il \<in> set (bar_ops xs W H j) \<longleftrightarrow>
     j = i \<and> r = startRadius xs W H \<and> inwardLen xs W H j = Some il \<and> 0 < il"
  by (auto simp: bar_ops_def split: option.splits if_splits)

lemma inward_in_frame:
  "InwardBar i r il \<in> set (water_circle_frame xs W H g time shards noise) \<longleftrightarrow>
     i < 120 \<and> r = startRadius xs W H \<and> inwardLen xs W H i = Some il \<and> 0 < il"
  by (auto simp: water_circle_frame_def glow_ops_no_bar inward_in_bar_ops
      split: option.splits)

text \<open>
  C7 (as amended).  Every inward bar that a Water Circle frame draws belongs to a slot
  below 120, starts at \<open>startRadius\<close>, has positive length
  \<open>min (outward length) (startRadius - (poolSize + centerGap))\<close>, and ends at a radius of
  at least \<open>poolSize + centerGap\<close>.
\<close>

theorem inward_bar_clear_of_pool:
  assumes "InwardBar i r il \<in> set (water_circle_frame xs W H g time shards noise)"
  shows "i < 120 \<and> r = startRadius xs W H \<and> 0 < il
       \<and> (\<exists>len. ink_length xs H i = Some len
              \<and> il = min len (startRadius xs W H - (poolSize xs W H + centerGap)))
       \<and> poolSize xs W H + centerGap \<le> r - il"
proof -
  from assms have i: "i < 120" and r: "r = startRadius xs W H"
    and il: "inwardLen xs W H i = Some il" and pos: "0 < il"
    by (simp_all add: inward_in_frame)
  from il obtain len where len: "ink_length xs H i = Some len"
    and eq: "il = min len (maxInwardLen xs W H)"
    by (auto simp: inwardLen_def split: option.splits)
  from eq pos have "0 < maxInwardLen xs W H" by simp
  then have m: "maxInwardLen xs W H = startRadius xs W H - (poolSize xs W H + centerGap)"
    by (simp add: maxInwardLen_def safeInnerRadius_def max_def split: if_splits)
  have "il \<le> startRadius xs W H - (poolSize xs W H + centerGap)"
    using eq m by simp
  then show ?thesis using i r pos len eq m by auto
qed

theorem inward_bar_clear_of_pool_witness:
  "InwardBar 0 (1189 / 10) (511 / 20)
      \<in> set (water_circle_frame (replicate 1024 255) 450 450 0 0 [] None)
   \<and> poolSize (replicate 1024 255) 450 450 + centerGap \<le> 1189 / 10 - 511 / 20"
proof -
  have l: "ink_length (replicate 1024 255) 450 0 = Some (4401 / 20)"
    by (simp add: ink_length_def ink_index_def js_index_def byte_val_def maxExtend_def
        bassLevel_full)
  have s: "startRadius (replicate 1024 255) 450 450 = 1189 / 10"
    by (simp add: startRadius_def radiusBase_def bassLevel_full Let_def)
  have p: "poolSize (replicate 1024 255) 450 450 = 1667 / 20"
    by (simp add: poolSize_def radiusBase_def bassLevel_full)
  have i: "inwardLen (replicate 1024 255) 450 450 0 = Some (511 / 20)"
    by (simp add: inwardLen_def l maxInwardLen_def safeInnerRadius_def s p centerGap_def)
  have m: "InwardBar 0 (1189 / 10) (511 / 20)
      \<in> set (water_circle_frame (replicate 1024 255) 450 450 0 0 [] None)"
    by (simp add: inward_in_frame s i)
  show ?thesis using inward_bar_clear_of_pool [OF m] m by simp
qed

lemma inwardLen_general:
  "inwardLen xs W H i =
     map_option (\<lambda>len. min len (max 0 (startRadius xs W H - (poolSize xs W H + centerGap))))
       (ink_length xs H i)"
  by (simp add: inwardLen_def maxInwardLen_def safeInnerRadius_def split: option.splits)

text \<open>
  C7 as stated fails on a surface of 45 by 45 in silence: \<open>startRadius\<close> is 9, below
  \<open>poolSize + centerGap = 14\<close>; the inward length is clamped to 0, not to the negative
  \<open>min 0 (9 - 14)\<close>, and \<open>startRadius - 0\<close> is inside the pool boundary.
\<close>

theorem inward_small_surface:
  "ink_length (replicate 1024 0) 45 0 = Some 0
   \<and> startRadius (replicate 1024 0) 45 45 = 9
   \<and> poolSize (replicate 1024 0) 45 45 + centerGap = 14
   \<and> inwardLen (replicate 1024 0) 45 45 0 = Some 0
   \<and> inwardLen (replicate 1024 0) 45 45 0
        \<noteq> Some (min 0 (startRadius (replicate 1024 0) 45 45
                        - (poolSize (replicate 1024 0) 45 45 + centerGap)))
   \<and> \<not> (poolSize (replicate 1024 0) 45 45 + centerGap
          \<le> startRadius (replicate 1024 0) 45 45 - 0)"
proof -
  have l: "ink_length (replicate 1024 0) 45 0 = Some 0"
    by (rule silence_ink_length) simp_all
  have i: "inwardLen (replicate 1024 0) 45 45 0 = Some 0"
    by (rule silence_inwardLen) simp_all
  have s: "startRadius (replicate 1024 0) 45 45 = 9"
    by (simp add: startRadius_def radiusBase_def bassLevel_silence Let_def)
  have p: "poolSize (replicate 1024 0) 45 45 + centerGap = 14"
    by (simp add: poolSize_def radiusBase_def bassLevel_silence centerGap_def)
  show ?thesis unfolding l i s p by simp
qed

subsection \<open>Wave mode\<close>

lemma length_wave_loop [simp]: "length (wave_loop sl H x i ss) = length ss"
  by (induction ss arbitrary: x i) (simp_all add: Let_def)

lemma wave_loop_nth:
  "j < length ss \<Longrightarrow>
   wave_loop sl H x i ss ! j =
     (if i + j = 0 then MoveTo else LineTo) (x + real j * sl) (byte_val (ss ! j) / 128 * H / 2)"
proof (induction ss arbitrary: x i j)
  case Nil
  then show ?case by simp
next
  case (Cons s ss)
  show ?case
  proof (cases j)
    case 0
    then show ?thesis by (simp add: Let_def)
  next
    case (Suc m)
    then have "m < length ss" using Cons.prems by simp
    then show ?thesis using Suc Cons.IH [of m "x + sl" "Suc i"]
      by (simp add: Let_def algebra_simps)
  qed
qed

lemma length_copy_into [simp]: "length (copy_into src array) = length array"
  by (simp add: copy_into_def)

lemma copy_into_full:
  "length array \<le> length src \<Longrightarrow> copy_into src array = take (length array) src"
  by (simp add: copy_into_def)

lemma render_wave_buffer:
  assumes "length dataArray \<le> length (timeDomainBytes analyser)"
  shows "fst (render_wave analyser dataArray W H g time)
           = take (length dataArray) (timeDomainBytes analyser)"
  using assms
  by (simp add: render_wave_def Let_def getByteTimeDomainData_def getByteFrequencyData_def
      copy_into_full)

text \<open>
  C8.  In Wave mode the array that line 227 filled with frequency data is filled again
  with the time-domain samples (of which the analyser holds at least as many as the array
  has room for), and the stroke is drawn from those: its points do not depend on the
  frequency data.  The stroke has the one hue \<open>dynamicHue\<close> and is one polyline: a move to
  the first sample, a line to every later one, and a closing line to
  \<open>(WIDTH, HEIGHT / 2)\<close>.  Sample \<open>j\<close> with byte \<open>s\<close> lies at \<open>x = j * WIDTH / bufferLength\<close>
  and, measured from the centre line \<open>HEIGHT / 2\<close> on which the path ends, at
  \<open>y = (s / 128 - 1) * HEIGHT / 2\<close>.
\<close>

theorem wave_polyline:
  assumes "length dataArray \<le> length (timeDomainBytes analyser)" and "j < length dataArray"
  shows "(case render_wave analyser dataArray W H g time of
            (buffer, stroke) \<Rightarrow>
              buffer = take (length dataArray) (timeDomainBytes analyser)
              \<and> strokeHue stroke = dynamicHue g time
              \<and> length (strokePath stroke) = length dataArray + 1
              \<and> strokePath stroke ! j =
                  (if j = 0 then MoveTo else LineTo)
                    (real j * (W / real (length dataArray)))
                    (H / 2 + (byte_val (timeDomainBytes analyser ! j) / 128 - 1) * H / 2)
              \<and> strokePath stroke ! length dataArray = LineTo W (H / 2))"
proof -
  let ?buf = "take (length dataArray) (timeDomainBytes analyser)"
  have r: "render_wave analyser dataArray W H g time = (?buf, wave_frame ?buf W H g time)"
    using assms(1)
    by (simp add: render_wave_def Let_def getByteTimeDomainData_def getByteFrequencyData_def
        copy_into_full)
  have len: "length ?buf = length dataArray" using assms(1) by simp
  have j: "j < length ?buf" using assms(2) len by simp
  define sl where "sl = W * 1.0 / real (length ?buf)"
  have sl: "sl = W / real (length dataArray)" unfolding sl_def len by simp
  have wl: "length (wave_loop sl H 0 0 ?buf) = length dataArray"
    using assms(1) by simp
  have sp: "strokePath (wave_frame ?buf W H g time)
              = wave_loop sl H 0 0 ?buf @ [LineTo W (H / 2)]"
    by (simp add: wave_frame_def Let_def sl_def)
  have y: "byte_val (?buf ! j) / 128 * H / 2
             = H / 2 + (byte_val (timeDomainBytes analyser ! j) / 128 - 1) * H / 2"
    using assms(2) by (simp add: field_simps)
  have "strokePath (wave_frame ?buf W H g time) ! j = wave_loop sl H 0 0 ?buf ! j"
    unfolding sp using assms(2) wl by (simp only: nth_append if_True)
  also have "\<dots> = (if 0 + j = 0 then MoveTo else LineTo) (0 + real j * sl)
                     (byte_val (?buf ! j) / 128 * H / 2)"
    by (rule wave_loop_nth [OF j])
  also have "\<dots> = (if j = 0 then MoveTo else LineTo)
                     (real j * (W / real (length dataArray)))
                     (H / 2 + (byte_val (timeDomainBytes analyser ! j) / 128 - 1) * H / 2)"
    unfolding y sl by simp
  finally have p: "strokePath (wave_frame ?buf W H g time) ! j =
             (if j = 0 then MoveTo else LineTo)
               (real j * (W / real (length dataArray)))
               (H / 2 + (byte_val (timeDomainBytes analyser ! j) / 128 - 1) * H / 2)" .
  have e: "strokePath (wave_frame ?buf W H g time) ! length dataArray = LineTo W (H / 2)"
    unfolding sp using nth_append_length [of "wave_loop sl H 0 0 ?buf" "LineTo W (H / 2)" "[]"]
    by (simp only: wl)
  have l: "length (strokePath (wave_frame ?buf W H g time)) = length dataArray + 1"
    unfolding sp by (simp only: length_append wl list.size)
  have h: "strokeHue (wave_frame ?buf W H g time) = dynamicHue g time"
    by (simp add: wave_frame_def Let_def)
  show ?thesis unfolding r using p e l h by (simp only: prod.case)
qed

theorem wave_polyline_witness:
  "fst (render_wave \<lparr>frequencyBytes = [9, 9, 9], timeDomainBytes = [128, 255, 0, 64, 64, 64]\<rparr>
          [0, 0, 0] 800 600 10 2) = [128, 255, 0]
   \<and> strokePath (snd (render_wave
          \<lparr>frequencyBytes = [9, 9, 9], timeDomainBytes = [128, 255, 0, 64, 64, 64]\<rparr>
          [0, 0, 0] 800 600 10 2)) ! 0 = MoveTo 0 300
   \<and> strokePath (snd (render_wave
          \<lparr>frequencyBytes = [9, 9, 9], timeDomainBytes = [128, 255, 0, 64, 64, 64]\<rparr>
          [0, 0, 0] 800 600 10 2)) ! 1 = LineTo (800 / 3) (300 + (255 / 128 - 1) * 300)
   \<and> strokePath (snd (render_wave
          \<lparr>frequencyBytes = [9, 9, 9], timeDomainBytes = [128, 255, 0, 64, 64, 64]\<rparr>
          [0, 0, 0] 800 600 10 2)) ! 2 = LineTo (1600 / 3) 0
   \<and> strokePath (snd (render_wave
          \<lparr>frequencyBytes = [9, 9, 9], timeDomainBytes = [128, 255, 0, 64, 64, 64]\<rparr>
          [0, 0, 0] 800 600 10 2)) ! 3 = LineTo 800 300"
proof -
  let ?an = "\<lparr>frequencyBytes = [9, 9, 9], timeDomainBytes = [128 :: byte, 255, 0, 64, 64, 64]\<rparr>"
  have l: "length [0 :: byte, 0, 0] \<le> length (timeDomainBytes ?an)" by simp
  have j0: "0 < length [0 :: byte, 0, 0]" and j1: "1 < length [0 :: byte, 0, 0]"
    and j2: "2 < length [0 :: byte, 0, 0]" by simp_all
  note t0 = wave_polyline
    [OF l j0, where W = 800 and H = 600 and g = 10 and time = 2, unfolded case_prod_beta]
  note t1 = wave_polyline
    [OF l j1, where W = 800 and H = 600 and g = 10 and time = 2, unfolded case_prod_beta]
  note t2 = wave_polyline
    [OF l j2, where W = 800 and H = 600 and g = 10 and time = 2, unfolded case_prod_beta]
  show ?thesis
    using t0 t1 t2 by (simp add: byte_val_def numeral_3_eq_3)
qed


end
